theory Spec2Isabelle
  imports Main "HOL-Library.Multiset"
begin

section \<open>Batch execution: \<open>processBatches\<close>\<close>

text \<open>
  The helper \<open>processBatches(items, batchSize, processFn)\<close> of the tool handlers walks over
  \<open>items\<close> in steps of \<open>batchSize\<close>, calls \<open>processFn\<close> on each slice and, when the
  protected block throws, calls \<open>processFn\<close> again on every item of the slice on its own.

  \<^item> \<open>processFn\<close> is an asynchronous function of the caller. It may have effects and it may
    answer differently when called twice, so it is modelled as a function that threads an
    abstract state \<open>'s\<close> of the outside world and either throws (\<open>Inl\<close>) or returns a list of
    results (\<open>Inr\<close>).
  \<^item> \<open>batchSize\<close> is a natural number: a chunk size is one of \<open>0, 1, 2, ...\<close>.
  \<^item> The \<open>for\<close> loop does not terminate for every input (\<open>i += 0\<close>), so it is a partial
    function into \<open>option\<close>: \<open>None\<close> is "never returns".
  \<^item> \<open>try { ... } catch { ... }\<close> is the combinator \<open>try_catch\<close>; an exception that no \<open>catch\<close>
    takes would leave \<open>processBatches\<close> as \<open>Inl\<close>.
  \<^item> \<open>successes.push(...results)\<close> passes every element of \<open>results\<close> as an argument of one
    call. A JavaScript engine accepts a bounded number of arguments and throws a \<open>RangeError\<close>
    beyond it, before anything is pushed. The bound differs between engines, so it is the
    parameter \<open>maxArguments\<close>. Both \<open>push\<close> calls stand inside a \<open>try\<close> block, so the
    \<open>catch\<close> next to them takes that error too.
\<close>

type_synonym ('t, 'u, 'e, 's) processFn = "'t list \<Rightarrow> 's \<Rightarrow> ('e + 'u list) \<times> 's"

text \<open>
  What a \<open>catch\<close> block of \<open>processBatches\<close> can receive: the error \<open>processFn\<close> threw, or
  the \<open>RangeError\<close> of a \<open>push\<close> with too many arguments.
\<close>

datatype 'e thrown = Thrown 'e | RangeError

record ('t, 'e) failure =
  item :: 't
  error :: "'e thrown"

record ('t, 'u, 'e) batch_result =
  successes :: "'u list"
  failures :: "('t, 'e) failure list"

text \<open>\<open>xs.slice(start, end)\<close> for indices \<open>0 \<le> start \<le> end\<close>; the end is clipped to the length.\<close>

definition slice :: "'a list \<Rightarrow> nat \<Rightarrow> nat \<Rightarrow> 'a list" where
  "slice xs start end = take (end - start) (drop start xs)"

text \<open>
  \<open>try_catch body handler\<close>: \<open>body\<close> is the outcome of the protected block together with the
  state it left behind; the handler runs on the thrown value, from that state.
\<close>

definition try_catch ::
  "('e + 'a) \<times> 's \<Rightarrow> ('e \<Rightarrow> 's \<Rightarrow> ('e + 'a) \<times> 's) \<Rightarrow> ('e + 'a) \<times> 's" where
  "try_catch body handler =
     (case body of (Inr v, s) \<Rightarrow> (Inr v, s) | (Inl e, s) \<Rightarrow> handler e s)"

text \<open>
  The protected block \<open>const results = await processFn(batch); successes.push(...results)\<close>:
  it throws what the call throws, and it throws \<open>RangeError\<close>, with nothing pushed, when the
  call returned more results than one call takes arguments.
\<close>

definition push_results ::
  "nat \<Rightarrow> ('t, 'u, 'e) batch_result \<Rightarrow> ('e + 'u list) \<times> 's
     \<Rightarrow> ('e thrown + ('t, 'u, 'e) batch_result) \<times> 's" where
  "push_results maxArguments acc call =
     (case call of
        (Inl e, s) \<Rightarrow> (Inl (Thrown e), s)
      | (Inr results, s) \<Rightarrow>
          if maxArguments < length results then (Inl RangeError, s)
          else (Inr (acc\<lparr>successes := successes acc @ results\<rparr>), s))"

text \<open>The inner loop \<open>for (const item of batch) { try { ... } catch (itemError) { ... } }\<close>.\<close>

fun retryItems ::
  "nat \<Rightarrow> ('t, 'u, 'e, 's) processFn \<Rightarrow> 't list \<Rightarrow> ('t, 'u, 'e) batch_result \<Rightarrow> 's
     \<Rightarrow> ('e thrown + ('t, 'u, 'e) batch_result) \<times> 's" where
  "retryItems maxArguments processFn [] acc s = (Inr acc, s)"
| "retryItems maxArguments processFn (x # rest) acc s =
     (case try_catch (push_results maxArguments acc (processFn [x] s))
             (\<lambda>itemError s'.
                (Inr (acc\<lparr>failures := failures acc @ [\<lparr>item = x, error = itemError\<rparr>]\<rparr>), s')) of
        (Inl e, s') \<Rightarrow> (Inl e, s')
      | (Inr acc', s') \<Rightarrow> retryItems maxArguments processFn rest acc' s')"

text \<open>The outer loop \<open>for (let i = 0; i < items.length; i += batchSize)\<close>, from index \<open>i\<close>.\<close>

partial_function (option) processBatches_loop ::
  "nat \<Rightarrow> 't list \<Rightarrow> nat \<Rightarrow> ('t, 'u, 'e, 's) processFn \<Rightarrow> nat \<Rightarrow> ('t, 'u, 'e) batch_result \<Rightarrow> 's
     \<Rightarrow> (('e thrown + ('t, 'u, 'e) batch_result) \<times> 's) option" where
  "processBatches_loop maxArguments items batchSize processFn i acc s =
     (if i < length items then
        (let batch = slice items i (i + batchSize) in
         case try_catch (push_results maxArguments acc (processFn batch s))
                (\<lambda>error s'. retryItems maxArguments processFn batch acc s') of
           (Inl e, s') \<Rightarrow> Some (Inl e, s')
         | (Inr acc', s') \<Rightarrow>
             processBatches_loop maxArguments items batchSize processFn (i + batchSize) acc' s')
      else Some (Inr acc, s))"

text \<open>
  \<open>processBatches(items, batchSize, processFn)\<close>, run on an engine that takes up to
  \<open>maxArguments\<close> arguments in a call.
\<close>

definition processBatches ::
  "nat \<Rightarrow> 't list \<Rightarrow> nat \<Rightarrow> ('t, 'u, 'e, 's) processFn \<Rightarrow> 's
     \<Rightarrow> (('e thrown + ('t, 'u, 'e) batch_result) \<times> 's) option" where
  "processBatches maxArguments items batchSize processFn s =
     processBatches_loop maxArguments items batchSize processFn 0
       \<lparr>successes = [], failures = []\<rparr> s"

subsection \<open>The loop as a total function on the chunks\<close>

text \<open>
  \<open>chunks n xs\<close> cuts \<open>xs\<close> into contiguous pieces of length \<open>n\<close>, the last one possibly
  shorter. \<open>run_chunks\<close> goes through the pieces by structural recursion and does on each
  piece what one round of the loop does: a piece is retried item by item when its call throws
  and when its results are too many for one \<open>push\<close>. The loop is compared with it below.
\<close>

function chunks :: "nat \<Rightarrow> 'a list \<Rightarrow> 'a list list" where
  "chunks n xs = (if n = 0 \<or> xs = [] then [] else take n xs # chunks n (drop n xs))"
  by pat_completeness auto
termination
  by (relation "measure (\<lambda>(n, xs). length xs)") auto

declare chunks.simps [simp del]

fun retry_each ::
  "nat \<Rightarrow> ('t, 'u, 'e, 's) processFn \<Rightarrow> 't list \<Rightarrow> ('t, 'u, 'e) batch_result \<Rightarrow> 's
     \<Rightarrow> ('t, 'u, 'e) batch_result \<times> 's" where
  "retry_each maxArguments operation [] acc s = (acc, s)"
| "retry_each maxArguments operation (x # rest) acc s =
     (case operation [x] s of
        (Inr result, s') \<Rightarrow>
          if maxArguments < length result then
            retry_each maxArguments operation rest
              (acc\<lparr>failures := failures acc @ [\<lparr>item = x, error = RangeError\<rparr>]\<rparr>) s'
          else
            retry_each maxArguments operation rest (acc\<lparr>successes := successes acc @ result\<rparr>) s'
      | (Inl reason, s') \<Rightarrow>
          retry_each maxArguments operation rest
            (acc\<lparr>failures := failures acc @ [\<lparr>item = x, error = Thrown reason\<rparr>]\<rparr>) s')"

fun run_chunks ::
  "nat \<Rightarrow> ('t, 'u, 'e, 's) processFn \<Rightarrow> 't list list \<Rightarrow> ('t, 'u, 'e) batch_result \<Rightarrow> 's
     \<Rightarrow> ('t, 'u, 'e) batch_result \<times> 's" where
  "run_chunks maxArguments operation [] acc s = (acc, s)"
| "run_chunks maxArguments operation (chunk # rest) acc s =
     (case operation chunk s of
        (Inr results, s') \<Rightarrow>
          if maxArguments < length results then
            (case retry_each maxArguments operation chunk acc s' of
               (acc', s'') \<Rightarrow> run_chunks maxArguments operation rest acc' s'')
          else
            run_chunks maxArguments operation rest (acc\<lparr>successes := successes acc @ results\<rparr>) s'
      | (Inl reason, s') \<Rightarrow>
          (case retry_each maxArguments operation chunk acc s' of
             (acc', s'') \<Rightarrow> run_chunks maxArguments operation rest acc' s''))"

text \<open>
  An operation "returns exactly one result per input item when it succeeds", in whatever state
  it is called.
\<close>

definition one_result_per_item :: "('t, 'u, 'e, 's) processFn \<Rightarrow> bool" where
  "one_result_per_item operation =
     (\<forall>batch s results s'. operation batch s = (Inr results, s') \<longrightarrow> length results = length batch)"

text \<open>
  \<open>key\<close> tells of every result which item it is the result for: a successful call returns,
  in order, one result for each item of its batch.
\<close>

definition results_identify_items :: "('u \<Rightarrow> 't) \<Rightarrow> ('t, 'u, 'e, 's) processFn \<Rightarrow> bool" where
  "results_identify_items key operation =
     (\<forall>batch s results s'. operation batch s = (Inr results, s') \<longrightarrow> map key results = batch)"

text \<open>
  An accounting gives every position of the input one outcome, a failure reason or a result.
  \<open>successes_of\<close> reads the results off it in input order, \<open>failures_of\<close> the failed items
  with their reasons.
\<close>

fun successes_of :: "('e thrown + 'u) list \<Rightarrow> 'u list" where
  "successes_of [] = []"
| "successes_of (Inr u # outs) = u # successes_of outs"
| "successes_of (Inl e # outs) = successes_of outs"

fun failures_of :: "'t list \<Rightarrow> ('e thrown + 'u) list \<Rightarrow> ('t, 'e) failure list" where
  "failures_of (x # xs) (Inl e # outs) = \<lparr>item = x, error = e\<rparr> # failures_of xs outs"
| "failures_of (x # xs) (Inr u # outs) = failures_of xs outs"
| "failures_of xs outs = []"

text \<open>
  \<open>outcome_from maxArguments operation x out\<close>: the outcome \<open>out\<close> of the item \<open>x\<close> is
  something the operation produced for \<open>x\<close>. A failure reason was thrown by a call on \<open>x\<close>
  alone, or is the \<open>RangeError\<close> of a call on \<open>x\<close> alone that returned too many results; a
  result stands in the list some successful call returned, at the position at which \<open>x\<close>
  stands in the batch of that call.
\<close>

fun outcome_from ::
  "nat \<Rightarrow> ('t, 'u, 'e, 's) processFn \<Rightarrow> 't \<Rightarrow> 'e thrown + 'u \<Rightarrow> bool" where
  "outcome_from maxArguments operation x (Inl (Thrown e)) =
     (\<exists>s1 s2. operation [x] s1 = (Inl e, s2))"
| "outcome_from maxArguments operation x (Inl RangeError) =
     (\<exists>s1 results s2. operation [x] s1 = (Inr results, s2) \<and> maxArguments < length results)"
| "outcome_from maxArguments operation x (Inr u) =
     (\<exists>batch s1 results s2 j. operation batch s1 = (Inr results, s2) \<and>
        j < length batch \<and> batch ! j = x \<and> results ! j = u)"

subsection \<open>Operations used in the examples\<close>

text \<open>
  The operation of the specification's example: the whole chunk \<open>["c", "d"]\<close> throws, every
  other call succeeds with one result \<open>f x\<close> per item \<open>x\<close>. It has no state.
\<close>

definition example_operation :: "(string \<Rightarrow> 'u) \<Rightarrow> (string, 'u, string, unit) processFn" where
  "example_operation f batch s =
     (if batch = [''c'', ''d''] then (Inl ''chunk rejected'', s) else (Inr (map f batch), s))"

text \<open>
  An operation that keeps the list of the calls it has received as its state, and throws on
  every batch that contains \<open>"b"\<close>.
\<close>

definition recording_operation :: "(string, string, string, string list list) processFn" where
  "recording_operation batch calls =
     (if ''b'' \<in> set batch then (Inl ''b is refused'', calls @ [batch])
      else (Inr batch, calls @ [batch]))"

text \<open>
  An operation that never throws: it returns its batch, one result per item, and counts the
  calls it has received.
\<close>

definition counting_operation :: "('t, 't, 'e, nat) processFn" where
  "counting_operation batch calls = (Inr batch, Suc calls)"

section \<open>Authorization: \<open>authenticate\<close> and \<open>loadCredentials\<close>\<close>

text \<open>
  \<open>authenticate\<close> (index.ts) binds a local HTTP server, builds the OAuth client for the bound
  port, shows the authorization address and waits for the redirect. What the platform and the
  libraries do is not code of the repository. It enters the model as parameters:
  \<^item> \<open>listen\<close>: what \<open>server.listen(p, '127.0.0.1')\<close> leads to, in a state \<open>'os\<close> of the
    operating system: the \<open>listening\<close> event with the port of \<open>server.address()\<close> (for a TCP
    listener that is always an address object, so the alternative \<open>: p\<close> of the source is
    never taken), or the \<open>error\<close> event with its \<open>code\<close>;
  \<^item> \<open>new_URL\<close> and \<open>searchParams\<close>: the \<open>URL\<close> class, \<open>None\<close> when the constructor throws;
  \<^item> \<open>token_endpoint\<close>: the answer of the remote token endpoint to a token request;
  \<^item> \<open>JSON_stringify\<close> and \<open>JSON_parse\<close>, and the constant \<open>CREDENTIALS_PATH\<close>. The two
    functions of the language standard are defined further down, for token sets.

  The handler is asynchronous; here one request is handled to its end before the next.
\<close>

text \<open>\<open>`${finalPort}`\<close>: a number in decimal.\<close>

definition digit_char :: "nat \<Rightarrow> char" where
  "digit_char d = ''0123456789'' ! d"

fun string_of_nat :: "nat \<Rightarrow> string" where
  "string_of_nat n =
     (if n < 10 then [digit_char n] else string_of_nat (n div 10) @ [digit_char (n mod 10)])"

declare string_of_nat.simps [simp del]

definition startsWith :: "string \<Rightarrow> string \<Rightarrow> bool" where
  "startsWith s p = (take (length p) s = p)"

text \<open>
  The fields of a parsed \<open>URL\<close> that \<open>authenticate\<close> reads. \<open>u.port\<close> is the empty string
  (\<open>None\<close>) or the digits of the port, which \<open>parseInt\<close> turns into the number.
\<close>

record URL =
  hostname :: string
  pathname :: string
  port :: "nat option"

text \<open>The event that follows \<open>server.listen\<close>: \<open>listening\<close>, or \<open>error\<close> with \<open>err.code\<close>.\<close>

datatype listen_event = Listening nat | ListenError "string option"

text \<open>A step that may end the process with \<open>process.exit(code)\<close>.\<close>

datatype 'a outcome = Done 'a | ProcessExit nat

record oauth_keys =
  client_id :: string
  client_secret :: string

record 'tok OAuth2Client =
  clientId :: string
  clientSecret :: string
  redirectUri :: string
  credentials :: "'tok option"

text \<open>
  The parameters an authorization address carries (section 6 of the specification: client
  identifier, requested scopes, response type, access type and the redirect URI), and the
  request sent to the token endpoint (the code, the client credentials and the redirect URI).
\<close>

record auth_url =
  au_client_id :: string
  au_redirect_uri :: string
  au_response_type :: string
  au_access_type :: string
  au_scope :: "string list"

record token_request =
  tr_code :: string
  tr_client_id :: string
  tr_client_secret :: string
  tr_redirect_uri :: string

text \<open>
  What the promise of \<open>authenticate\<close> is rejected with: \<open>new Error(message)\<close>, the error thrown
  by \<open>getToken\<close>, or the error thrown by \<open>writeFileSync\<close>.
\<close>

datatype 'e reason = Error string | TokenError 'e | WriteError string

datatype 'e promise = Pending | Fulfilled | Rejected "'e reason"

text \<open>The file system: the text of each file, and the paths at which writing fails.\<close>

record fs =
  contents :: "string \<rightharpoonup> string"
  unwritable :: "string set"

record request =
  url :: "string option"

record response =
  statusCode :: nat
  responseBody :: string

record ('tok, 'e) platform =
  new_URL :: "string \<Rightarrow> URL option"
  searchParams :: "string \<Rightarrow> string \<Rightarrow> (string \<times> string) list option"
  token_endpoint :: "token_request \<Rightarrow> 'e + 'tok"
  JSON_stringify :: "'tok \<Rightarrow> string"
  JSON_parse :: "string \<Rightarrow> 'tok option"
  CREDENTIALS_PATH :: string

text \<open>
  The state the request handler works on: the module variable \<open>oauth2Client\<close>, whether the
  server accepts connections, the promise returned by \<open>authenticate\<close>, the file system, the
  responses written so far, the requests sent to the token endpoint so far, and whether a
  handler run ended in an exception nobody caught.
\<close>

record ('tok, 'e) auth_state =
  oauth2Client :: "'tok OAuth2Client"
  listening :: bool
  promise :: "'e promise"
  files :: fs
  responses :: "response list"
  exchanges :: "token_request list"
  unhandled :: bool

text \<open>What \<open>authenticate\<close> has set up when it starts to wait for requests.\<close>

record ('tok, 'e) flow =
  flow_host :: string
  flow_pathName :: string
  flow_finalPort :: nat
  flow_authUrl :: auth_url
  flow_state :: "('tok, 'e) auth_state"

text \<open>
  Lines 187 to 200: the requested callback, its host, path and preferred port, with the
  defaults when the argument is missing, when \<open>new URL\<close> throws (\<open>None\<close>) or a part is empty.
\<close>

definition parse_callback :: "(string \<Rightarrow> URL option) \<Rightarrow> string option \<Rightarrow> string \<times> string \<times> nat" where
  "parse_callback newURL argv3 =
     (let requestedCallback =
            (case argv3 of None \<Rightarrow> ''http://localhost:3000/oauth2callback''
             | Some a \<Rightarrow> if a = [] then ''http://localhost:3000/oauth2callback'' else a)
      in case newURL requestedCallback of
           None \<Rightarrow> (''localhost'', ''/oauth2callback'', 3000)
         | Some u \<Rightarrow>
             (if hostname u = [] then ''localhost'' else hostname u,
              if pathname u = [] then ''/oauth2callback'' else pathname u,
              case port u of None \<Rightarrow> 3000 | Some p \<Rightarrow> p))"

text \<open>
  Lines 204 to 221, \<open>tryListen\<close>: listen on \<open>p\<close>; on the error \<open>EADDRINUSE\<close> call
  \<open>tryListen(0)\<close>, on any other error \<open>process.exit(1)\<close>; on \<open>listening\<close> resolve with the
  port of the server's address. Nothing bounds the number of retries, hence \<open>option\<close>.
\<close>

partial_function (option) tryListen ::
  "(nat \<Rightarrow> 'os \<Rightarrow> listen_event \<times> 'os) \<Rightarrow> nat \<Rightarrow> 'os \<Rightarrow> (nat outcome \<times> 'os) option" where
  "tryListen listen p os =
     (case listen p os of
        (ListenError code, os') \<Rightarrow>
          if code = Some ''EADDRINUSE'' then tryListen listen 0 os'
          else Some (ProcessExit 1, os')
      | (Listening bound, os') \<Rightarrow> Some (Done bound, os'))"

text \<open>
  \<open>OAuth2Client.generateAuthUrl\<close> and the request of \<open>OAuth2Client.getToken\<close> belong to the
  client library: both take the redirect URI from the client they are called on.
\<close>

definition generateAuthUrl :: "'tok OAuth2Client \<Rightarrow> string \<Rightarrow> string list \<Rightarrow> auth_url" where
  "generateAuthUrl client access_type scope =
     \<lparr>au_client_id = clientId client, au_redirect_uri = redirectUri client,
      au_response_type = ''code'', au_access_type = access_type, au_scope = scope\<rparr>"

definition token_request_of :: "'tok OAuth2Client \<Rightarrow> string \<Rightarrow> token_request" where
  "token_request_of client code =
     \<lparr>tr_code = code, tr_client_id = clientId client, tr_client_secret = clientSecret client,
      tr_redirect_uri = redirectUri client\<rparr>"

definition existsSync :: "string \<Rightarrow> fs \<Rightarrow> bool" where
  "existsSync path disk = (contents disk path \<noteq> None)"

definition writeFileSync :: "string \<Rightarrow> string \<Rightarrow> fs \<Rightarrow> 'e reason + fs" where
  "writeFileSync path data disk =
     (if path \<in> unwritable disk then Inl (WriteError ''EACCES'')
      else Inr (disk\<lparr>contents := (contents disk)(path \<mapsto> data)\<rparr>))"

text \<open>Line 223: \<open>`http://${host}:${finalPort}${pathName}`\<close>.\<close>

definition finalCallback :: "string \<Rightarrow> nat \<Rightarrow> string \<Rightarrow> string" where
  "finalCallback host finalPort pathName =
     ''http://'' @ host @ '':'' @ string_of_nat finalPort @ pathName"

text \<open>
  Lines 185 to 244: \<open>authenticate\<close> up to the point where the request handler is installed.
  \<open>None\<close>: the bind never settles; \<open>ProcessExit\<close>: a fatal bind error.
\<close>

definition authenticate_start ::
  "('tok, 'e) platform \<Rightarrow> (nat \<Rightarrow> 'os \<Rightarrow> listen_event \<times> 'os) \<Rightarrow> oauth_keys \<Rightarrow> string option
     \<Rightarrow> 'os \<Rightarrow> fs \<Rightarrow> (('tok, 'e) flow outcome \<times> 'os) option" where
  "authenticate_start W listen oauthKeys argv3 os disk =
     (case parse_callback (new_URL W) argv3 of
        (host, pathName, preferredPort) \<Rightarrow>
          (case tryListen listen preferredPort os of
             None \<Rightarrow> None
           | Some (ProcessExit c, os') \<Rightarrow> Some (ProcessExit c, os')
           | Some (Done finalPort, os') \<Rightarrow>
               (let client = \<lparr>clientId = client_id oauthKeys,
                              clientSecret = client_secret oauthKeys,
                              redirectUri = finalCallback host finalPort pathName,
                              credentials = None\<rparr>;
                    authUrl = generateAuthUrl client ''offline''
                                [''https://www.googleapis.com/auth/gmail.modify'',
                                 ''https://www.googleapis.com/auth/gmail.settings.basic'']
                in Some (Done \<lparr>flow_host = host, flow_pathName = pathName,
                               flow_finalPort = finalPort, flow_authUrl = authUrl,
                               flow_state = \<lparr>oauth2Client = client, listening = True,
                                         promise = Pending, files = disk, responses = [],
                                         exchanges = [], unhandled = False\<rparr>\<rparr>, os'))))"

text \<open>\<open>res.writeHead(code); res.end(text)\<close>.\<close>

definition respond :: "nat \<Rightarrow> string \<Rightarrow> ('tok, 'e) auth_state \<Rightarrow> ('tok, 'e) auth_state" where
  "respond code text st = st\<lparr>responses := responses st @ [\<lparr>statusCode = code, responseBody = text\<rparr>]\<rparr>"

text \<open>\<open>resolve()\<close> and \<open>reject(r)\<close>: a promise settles once.\<close>

definition resolve :: "('tok, 'e) auth_state \<Rightarrow> ('tok, 'e) auth_state" where
  "resolve st = st\<lparr>promise := (if promise st = Pending then Fulfilled else promise st)\<rparr>"

definition reject :: "'e reason \<Rightarrow> ('tok, 'e) auth_state \<Rightarrow> ('tok, 'e) auth_state" where
  "reject r st = st\<lparr>promise := (if promise st = Pending then Rejected r else promise st)\<rparr>"

text \<open>\<open>server.close()\<close>: the server stops accepting new connections.\<close>

definition server_close :: "('tok, 'e) auth_state \<Rightarrow> ('tok, 'e) auth_state" where
  "server_close st = st\<lparr>listening := False\<rparr>"

definition setCredentials :: "'tok \<Rightarrow> ('tok, 'e) auth_state \<Rightarrow> ('tok, 'e) auth_state" where
  "setCredentials tokens st = st\<lparr>oauth2Client := (oauth2Client st)\<lparr>credentials := Some tokens\<rparr>\<rparr>"

text \<open>\<open>await oauth2Client.getToken(code)\<close>: the request goes out from the current client.\<close>

definition getToken ::
  "('tok, 'e) platform \<Rightarrow> string \<Rightarrow> ('tok, 'e) auth_state \<Rightarrow> ('e reason + 'tok) \<times> ('tok, 'e) auth_state" where
  "getToken W code st =
     (let rq = token_request_of (oauth2Client st) code;
          st' = st\<lparr>exchanges := exchanges st @ [rq]\<rparr>
      in case token_endpoint W rq of
           Inl e \<Rightarrow> (Inl (TokenError e), st')
         | Inr tokens \<Rightarrow> (Inr tokens, st'))"

text \<open>Lines 260 to 267, the protected block of the handler.\<close>

definition exchange_and_save ::
  "('tok, 'e) platform \<Rightarrow> string \<Rightarrow> ('tok, 'e) auth_state \<Rightarrow> ('e reason + unit) \<times> ('tok, 'e) auth_state" where
  "exchange_and_save W code st =
     (case getToken W code st of
        (Inl e, st1) \<Rightarrow> (Inl e, st1)
      | (Inr tokens, st1) \<Rightarrow>
          (let st2 = setCredentials tokens st1 in
           case writeFileSync (CREDENTIALS_PATH W) (JSON_stringify W tokens) (files st2) of
             Inl e \<Rightarrow> (Inl e, st2)
           | Inr disk \<Rightarrow>
               (Inr (), resolve (server_close
                  (respond 200 ''Authentication successful! You can close this window.''
                     (st2\<lparr>files := disk\<rparr>))))))"

text \<open>
  Lines 246 to 273, the handler of the \<open>request\<close> event. A request without \<open>url\<close>, or whose
  \<open>url\<close> does not start with \<open>pathName\<close>, returns at once. When \<open>new URL(req.url, base)\<close>
  throws, the handler's own promise is rejected and nothing else happens. \<open>!code\<close> holds for
  a missing parameter and for an empty one.
\<close>

definition on_request ::
  "('tok, 'e) platform \<Rightarrow> string \<Rightarrow> nat \<Rightarrow> string \<Rightarrow> ('tok, 'e) auth_state \<Rightarrow> request
     \<Rightarrow> ('tok, 'e) auth_state" where
  "on_request W host finalPort pathName st req =
     (case url req of
        None \<Rightarrow> st
      | Some u \<Rightarrow>
          if \<not> startsWith u pathName then st
          else
            (case searchParams W u (''http://'' @ host @ '':'' @ string_of_nat finalPort) of
               None \<Rightarrow> st\<lparr>unhandled := True\<rparr>
             | Some params \<Rightarrow>
                 (let code = map_of params ''code'' in
                  if code = None \<or> code = Some [] then
                    reject (Error ''No code provided'') (respond 400 ''No code provided'' st)
                  else
                    snd (try_catch (exchange_and_save W (the code) st)
                           (\<lambda>error st'.
                              (Inr (), reject error (respond 500 ''Authentication failed'' st')))))))"

text \<open>A request reaches the handler only while the server accepts connections.\<close>

definition deliver ::
  "('tok, 'e) platform \<Rightarrow> string \<Rightarrow> nat \<Rightarrow> string \<Rightarrow> ('tok, 'e) auth_state \<Rightarrow> request
     \<Rightarrow> ('tok, 'e) auth_state" where
  "deliver W host finalPort pathName st req =
     (if listening st then on_request W host finalPort pathName st req else st)"

definition serve ::
  "('tok, 'e) platform \<Rightarrow> ('tok, 'e) flow \<Rightarrow> request list \<Rightarrow> ('tok, 'e) auth_state" where
  "serve W fl reqs =
     foldl (deliver W (flow_host fl) (flow_finalPort fl) (flow_pathName fl)) (flow_state fl) reqs"

text \<open>
  Lines 175 to 182, the end of \<open>loadCredentials\<close>: when the credentials file exists it is read
  and parsed and the client takes the result; an exception ends the process.
\<close>

definition loadSavedCredentials ::
  "('tok, 'e) platform \<Rightarrow> fs \<Rightarrow> 'tok OAuth2Client \<Rightarrow> 'tok OAuth2Client outcome" where
  "loadSavedCredentials W disk client =
     (if existsSync (CREDENTIALS_PATH W) disk then
        (case contents disk (CREDENTIALS_PATH W) of
           None \<Rightarrow> ProcessExit 1
         | Some text \<Rightarrow>
             (case JSON_parse W text of
                None \<Rightarrow> ProcessExit 1
              | Some saved \<Rightarrow> Done (client\<lparr>credentials := Some saved\<rparr>)))
      else Done client)"

subsection \<open>The process around \<open>authenticate\<close>\<close>

text \<open>
  \<open>authenticate\<close> is called from \<open>main\<close> only (lines 291 to 295):
  \<open>await authenticate(); ...; process.exit(0)\<close>, and \<open>main\<close> itself runs as
  \<open>main().catch(error => { ...; process.exit(1) })\<close> (lines 415 to 418). So once the promise
  of \<open>authenticate\<close> is settled the process ends, with code 0 when it was fulfilled and with
  code 1 when it was rejected, before another connection is accepted.
\<close>

record ('tok, 'e) process =
  auth :: "('tok, 'e) auth_state"
  exit_code :: "nat option"

definition main_exit :: "'e promise \<Rightarrow> nat option" where
  "main_exit p = (case p of Pending \<Rightarrow> None | Fulfilled \<Rightarrow> Some 0 | Rejected r \<Rightarrow> Some 1)"

text \<open>
  One request arriving at the process: nothing happens once the process has ended; otherwise
  the request is delivered to the server, and \<open>main\<close> goes on when the promise is settled.
\<close>

definition main_turn ::
  "('tok, 'e) platform \<Rightarrow> string \<Rightarrow> nat \<Rightarrow> string \<Rightarrow> ('tok, 'e) process \<Rightarrow> request
     \<Rightarrow> ('tok, 'e) process" where
  "main_turn W host finalPort pathName P req =
     (case exit_code P of
        Some c \<Rightarrow> P
      | None \<Rightarrow>
          (let st = deliver W host finalPort pathName (auth P) req
           in \<lparr>auth = st, exit_code = main_exit (promise st)\<rparr>))"

subsection \<open>Observing the bind attempts\<close>

text \<open>\<open>logging listen\<close> behaves as \<open>listen\<close> and writes down the port of every attempt.\<close>

definition logging ::
  "(nat \<Rightarrow> 'os \<Rightarrow> listen_event \<times> 'os) \<Rightarrow> nat \<Rightarrow> nat list \<times> 'os \<Rightarrow> listen_event \<times> (nat list \<times> 'os)" where
  "logging listen p = (\<lambda>(attempts, os). case listen p os of (ev, os') \<Rightarrow> (ev, (attempts @ [p], os')))"

text \<open>The path of a request target: what stands before the query string.\<close>

definition request_path :: "string \<Rightarrow> string" where
  "request_path u = takeWhile (\<lambda>c. c \<noteq> CHR ''?'') u"

subsection \<open>The credentials file: \<open>JSON.stringify\<close> and \<open>JSON.parse\<close> on a token set\<close>

text \<open>
  The token set that \<open>getToken\<close> returns is an object of the type \<open>Credentials\<close> of the OAuth
  library: \<open>access_token\<close>, \<open>refresh_token\<close>, \<open>scope\<close>, \<open>token_type\<close>, \<open>id_token\<close> are strings
  or \<open>null\<close> and \<open>expiry_date\<close> is a number of milliseconds or \<open>null\<close>. Here it is the list of
  its properties in the order of enumeration, each with its value: a string (of code units
  below 256), an integer, a boolean or \<open>null\<close>. \<open>JNumber i\<close> stands for the number \<open>i\<close>:
  every integer up to \<open>2\<^sup>5\<^sup>3 - 1\<close> in size is a number of the language, and one that
  \<open>JSON.stringify\<close> prints in plain decimal digits. An object has each property name once.
  (An engine enumerates names that are array indices before the others; a token set has no
  such name, and the order of the text is the order of enumeration.)
\<close>

datatype json_value = JString string | JNumber int | JBool bool | JNull

type_synonym token_set = "(string \<times> json_value) list"

fun safe_integer :: "json_value \<Rightarrow> bool" where
  "safe_integer (JNumber i) = (\<bar>i\<bar> \<le> 9007199254740991)"
| "safe_integer v = True"

definition is_token_set :: "token_set \<Rightarrow> bool" where
  "is_token_set props = (distinct (map fst props) \<and> list_all safe_integer (map snd props))"

text \<open>
  \<open>JSON.stringify(tokens)\<close> (line 262), as the language standard defines it for such an object
  and no indentation. A string is written between double quotes; the double quote and the
  backslash get a backslash, the control characters get their short escape or \<open>\u00\<close> and two
  lower-case hexadecimal digits, every other character stands for itself.
\<close>

definition hex_digit :: "nat \<Rightarrow> char" where
  "hex_digit d = ''0123456789abcdef'' ! d"

definition escape_char :: "char \<Rightarrow> string" where
  "escape_char c =
     (if c = CHR 0x22 then [CHR 0x5C, CHR 0x22]
      else if c = CHR 0x5C then [CHR 0x5C, CHR 0x5C]
      else if c = CHR 0x08 then [CHR 0x5C, CHR ''b'']
      else if c = CHR 0x09 then [CHR 0x5C, CHR ''t'']
      else if c = CHR 0x0A then [CHR 0x5C, CHR ''n'']
      else if c = CHR 0x0C then [CHR 0x5C, CHR ''f'']
      else if c = CHR 0x0D then [CHR 0x5C, CHR ''r'']
      else if of_char c < (0x20 :: nat) then
        [CHR 0x5C, CHR ''u'', CHR ''0'', CHR ''0'',
         hex_digit (of_char c div 16), hex_digit (of_char c mod 16)]
      else [c])"

definition quote_string :: "string \<Rightarrow> string" where
  "quote_string s = CHR 0x22 # concat (map escape_char s) @ [CHR 0x22]"

text \<open>An integer in decimal, with \<open>-\<close> before a negative one.\<close>

definition string_of_int :: "int \<Rightarrow> string" where
  "string_of_int i = (if i < 0 then CHR ''-'' # string_of_nat (nat (- i)) else string_of_nat (nat i))"

fun stringify_value :: "json_value \<Rightarrow> string" where
  "stringify_value (JString s) = quote_string s"
| "stringify_value (JNumber i) = string_of_int i"
| "stringify_value (JBool b) = (if b then ''true'' else ''false'')"
| "stringify_value JNull = ''null''"

text \<open>A property is \<open>"name":value\<close>; the properties are joined by commas between braces.\<close>

definition stringify_member :: "string \<times> json_value \<Rightarrow> string" where
  "stringify_member m = quote_string (fst m) @ '':'' @ stringify_value (snd m)"

fun join_members :: "string list \<Rightarrow> string" where
  "join_members [] = []"
| "join_members [m] = m"
| "join_members (m # ms) = m @ '','' @ join_members ms"

definition JSON_stringify_object :: "token_set \<Rightarrow> string" where
  "JSON_stringify_object props = ''{'' @ join_members (map stringify_member props) @ ''}''"

text \<open>
  \<open>JSON.parse(text)\<close> (line 176), as the standard defines it. White space is a space, a tab,
  a line feed or a carriage return, and may stand around every token.
\<close>

definition is_space :: "char \<Rightarrow> bool" where
  "is_space c = (c = CHR 0x20 \<or> c = CHR 0x09 \<or> c = CHR 0x0A \<or> c = CHR 0x0D)"

definition skip_space :: "string \<Rightarrow> string" where
  "skip_space cs = dropWhile is_space cs"

text \<open>
  The characters of a string after its opening quote, up to the closing quote: a backslash
  starts one of the escapes \<open>\" \\ \/ \b \f \n \r \t\<close> or \<open>\u\<close> with four hexadecimal digits
  (of either case), an unescaped control character is an error. A \<open>\u\<close> escape of a code
  unit of 256 or more does not belong to a string as described above and is refused here.
\<close>

definition hex_val :: "char \<Rightarrow> nat option" where
  "hex_val c =
     (let n = of_char c :: nat in
      if 48 \<le> n \<and> n \<le> 57 then Some (n - 48)
      else if 97 \<le> n \<and> n \<le> 102 then Some (n - 87)
      else if 65 \<le> n \<and> n \<le> 70 then Some (n - 55)
      else None)"

definition unescape :: "char \<Rightarrow> char option" where
  "unescape e =
     (if e = CHR 0x22 then Some (CHR 0x22)
      else if e = CHR 0x5C then Some (CHR 0x5C)
      else if e = CHR ''/'' then Some (CHR ''/'')
      else if e = CHR ''b'' then Some (CHR 0x08)
      else if e = CHR ''f'' then Some (CHR 0x0C)
      else if e = CHR ''n'' then Some (CHR 0x0A)
      else if e = CHR ''r'' then Some (CHR 0x0D)
      else if e = CHR ''t'' then Some (CHR 0x09)
      else None)"

definition code_unit :: "char \<Rightarrow> char \<Rightarrow> char \<Rightarrow> char \<Rightarrow> char option" where
  "code_unit h1 h2 h3 h4 =
     (case (hex_val h1, hex_val h2, hex_val h3, hex_val h4) of
        (Some a, Some b, Some c, Some d) \<Rightarrow>
          (let n = ((a * 16 + b) * 16 + c) * 16 + d
           in if n < 256 then Some (char_of n) else None)
      | _ \<Rightarrow> None)"

definition cons_char :: "char \<Rightarrow> (string \<times> string) option \<Rightarrow> (string \<times> string) option" where
  "cons_char c r = map_option (\<lambda>(s, rest). (c # s, rest)) r"

fun parse_chars :: "string \<Rightarrow> (string \<times> string) option" where
  "parse_chars [] = None"
| "parse_chars (c # cs) =
     (if c = CHR 0x22 then Some ([], cs)
      else if c = CHR 0x5C then
        (case cs of
           [] \<Rightarrow> None
         | e # cs1 \<Rightarrow>
             if e = CHR ''u'' then
               (case cs1 of
                  h1 # h2 # h3 # h4 # cs2 \<Rightarrow>
                    (case code_unit h1 h2 h3 h4 of
                       None \<Rightarrow> None
                     | Some d \<Rightarrow> cons_char d (parse_chars cs2))
                | _ \<Rightarrow> None)
             else
               (case unescape e of
                  None \<Rightarrow> None
                | Some d \<Rightarrow> cons_char d (parse_chars cs1)))
      else if of_char c < (0x20 :: nat) then None
      else cons_char c (parse_chars cs))"

text \<open>
  The digits of an integer: at least one, and no zero before another digit.
\<close>

definition is_digit :: "char \<Rightarrow> bool" where
  "is_digit c = (48 \<le> (of_char c :: nat) \<and> (of_char c :: nat) \<le> 57)"

definition digit_val :: "char \<Rightarrow> nat" where
  "digit_val c = of_char c - 48"

definition nat_of_digits :: "string \<Rightarrow> nat" where
  "nat_of_digits ds = foldl (\<lambda>n c. 10 * n + digit_val c) 0 ds"

definition parse_digits :: "string \<Rightarrow> (nat \<times> string) option" where
  "parse_digits cs =
     (let ds = takeWhile is_digit cs
      in if ds = [] \<or> (1 < length ds \<and> hd ds = CHR ''0'') then None
         else Some (nat_of_digits ds, dropWhile is_digit cs))"

text \<open>
  A value is a string, an integer, \<open>true\<close>, \<open>false\<close> or \<open>null\<close>. A text with a fraction, an
  exponent, an array or an object inside the object is not the text of a token set as
  described above, and is refused here.
\<close>

definition parse_value :: "string \<Rightarrow> (json_value \<times> string) option" where
  "parse_value cs =
     (case cs of
        [] \<Rightarrow> None
      | c # cs1 \<Rightarrow>
          if c = CHR 0x22 then map_option (\<lambda>(s, rest). (JString s, rest)) (parse_chars cs1)
          else if c = CHR ''-'' then
            map_option (\<lambda>(n, rest). (JNumber (- int n), rest)) (parse_digits cs1)
          else if is_digit c then
            map_option (\<lambda>(n, rest). (JNumber (int n), rest)) (parse_digits cs)
          else if take 4 cs = ''true'' then Some (JBool True, drop 4 cs)
          else if take 5 cs = ''false'' then Some (JBool False, drop 5 cs)
          else if take 4 cs = ''null'' then Some (JNull, drop 4 cs)
          else None)"

text \<open>One property \<open>"name" : value\<close>, with the text that follows it.\<close>

definition parse_member :: "string \<Rightarrow> ((string \<times> json_value) \<times> string) option" where
  "parse_member cs =
     (case skip_space cs of
        [] \<Rightarrow> None
      | c # cs1 \<Rightarrow>
          if c = CHR 0x22 then
            (case parse_chars cs1 of
               None \<Rightarrow> None
             | Some (k, r1) \<Rightarrow>
                 (case skip_space r1 of
                    [] \<Rightarrow> None
                  | d # r2 \<Rightarrow>
                      if d = CHR '':'' then
                        (case parse_value (skip_space r2) of
                           None \<Rightarrow> None
                         | Some (v, r3) \<Rightarrow> Some ((k, v), skip_space r3))
                      else None))
          else None)"

text \<open>
  The properties after the opening brace, up to the closing brace. A property read leaves
  less text than there was, which is what the guard says.
\<close>

function parse_members :: "string \<Rightarrow> (token_set \<times> string) option" where
  "parse_members cs =
     (case parse_member cs of
        None \<Rightarrow> None
      | Some (m, rest) \<Rightarrow>
          if length rest < length cs then
            (case rest of
               [] \<Rightarrow> None
             | c # r \<Rightarrow>
                 if c = CHR '','' then map_option (\<lambda>(ms, r'). (m # ms, r')) (parse_members r)
                 else if c = CHR ''}'' then Some ([m], r)
                 else None)
          else None)"
  by pat_completeness auto

termination
  by (relation "measure length") auto

declare parse_members.simps [simp del]

text \<open>
  A property name that comes again keeps its place in the object and takes the later value.
\<close>

fun set_property :: "string \<Rightarrow> json_value \<Rightarrow> token_set \<Rightarrow> token_set" where
  "set_property k v [] = [(k, v)]"
| "set_property k v (p # ps) = (if fst p = k then (k, v) # ps else p # set_property k v ps)"

text \<open>The whole text must be one object; nothing but white space may follow it.\<close>

definition JSON_parse_object :: "string \<Rightarrow> token_set option" where
  "JSON_parse_object text =
     (case skip_space text of
        [] \<Rightarrow> None
      | c # cs \<Rightarrow>
          if c = CHR ''{'' then
            (case skip_space cs of
               [] \<Rightarrow> None
             | d # r \<Rightarrow>
                 if d = CHR ''}'' then (if skip_space r = [] then Some [] else None)
                 else
                   (case parse_members (d # r) of
                      None \<Rightarrow> None
                    | Some (ms, r') \<Rightarrow>
                        if skip_space r' = []
                        then Some (foldl (\<lambda>props m. set_property (fst m) (snd m) props) [] ms)
                        else None))
          else None)"

subsection \<open>A platform for the examples\<close>

text \<open>
  An operating system whose state is the list of the ports in use and the lowest port that is
  not reserved: port 0 asks for the free port 49152, a port in use gives \<open>EADDRINUSE\<close>, a
  reserved port gives \<open>EACCES\<close>.
\<close>

definition example_listen :: "nat \<Rightarrow> nat list \<times> nat \<Rightarrow> listen_event \<times> (nat list \<times> nat)" where
  "example_listen p = (\<lambda>(busy, unreserved).
     if p = 0 then (Listening 49152, (49152 # busy, unreserved))
     else if p \<in> set busy then (ListenError (Some ''EADDRINUSE''), (busy, unreserved))
     else if p < unreserved then (ListenError (Some ''EACCES''), (busy, unreserved))
     else (Listening p, (p # busy, unreserved)))"

fun split_on :: "char \<Rightarrow> string \<Rightarrow> string list" where
  "split_on c [] = [[]]"
| "split_on c (x # xs) =
     (if x = c then [] # split_on c xs
      else (case split_on c xs of [] \<Rightarrow> [[x]] | w # ws \<Rightarrow> (x # w) # ws))"

text \<open>
  The query parameters of a request target without escapes: the text after \<open>?\<close>, cut at
  \<open>&\<close>, each piece cut at its first \<open>=\<close>.
\<close>

definition example_searchParams :: "string \<Rightarrow> string \<Rightarrow> (string \<times> string) list option" where
  "example_searchParams u base =
     Some (map (\<lambda>kv. (takeWhile (\<lambda>c. c \<noteq> CHR ''='') kv, drop 1 (dropWhile (\<lambda>c. c \<noteq> CHR ''='') kv)))
            (filter (\<lambda>kv. kv \<noteq> [])
               (split_on CHR ''&'' (drop 1 (dropWhile (\<lambda>c. c \<noteq> CHR ''?'') u)))))"

definition example_new_URL :: "string \<Rightarrow> URL option" where
  "example_new_URL s =
     (if s = ''http://localhost:3000/oauth2callback''
      then Some \<lparr>hostname = ''localhost'', pathname = ''/oauth2callback'', port = Some 3000\<rparr>
      else None)"

text \<open>A token endpoint that accepts the code \<open>4/abc\<close> only; a token set is its access token.\<close>

definition example_token_endpoint :: "token_request \<Rightarrow> string + string" where
  "example_token_endpoint rq =
     (if tr_code rq = ''4/abc'' then Inr ''ya29.token'' else Inl ''invalid_grant'')"

definition example_JSON_stringify :: "string \<Rightarrow> string" where
  "example_JSON_stringify tok = ''{access_token:'' @ tok @ ''}''"

definition example_JSON_parse :: "string \<Rightarrow> string option" where
  "example_JSON_parse text =
     (if startsWith text ''{access_token:'' \<and> startsWith (rev text) ''}''
      then Some (take (length text - 15) (drop 14 text)) else None)"

definition example_platform :: "(string, string) platform" where
  "example_platform =
     \<lparr>new_URL = example_new_URL, searchParams = example_searchParams,
      token_endpoint = example_token_endpoint, JSON_stringify = example_JSON_stringify,
      JSON_parse = example_JSON_parse,
      CREDENTIALS_PATH = ''/home/user/.gmail-mcp/credentials.json''\<rparr>"

definition example_keys :: oauth_keys where
  "example_keys = \<lparr>client_id = ''client-1'', client_secret = ''secret-1''\<rparr>"

definition example_disk :: fs where
  "example_disk = \<lparr>contents = Map.empty, unwritable = {}\<rparr>"

text \<open>The state in which \<open>authenticate\<close> waits after it has bound port 3000.\<close>

definition example_state :: "(string, string) auth_state" where
  "example_state =
     \<lparr>oauth2Client = \<lparr>clientId = ''client-1'', clientSecret = ''secret-1'',
                      redirectUri = ''http://localhost:3000/oauth2callback'', credentials = None\<rparr>,
      listening = True, promise = Pending, files = example_disk, responses = [],
      exchanges = [], unhandled = False\<rparr>"

text \<open>What \<open>authenticate\<close> has set up after port 3000 was in use and port 49152 was bound.\<close>

definition example_flow :: "(string, string) flow" where
  "example_flow =
     \<lparr>flow_host = ''localhost'', flow_pathName = ''/oauth2callback'', flow_finalPort = 49152,
      flow_authUrl =
        \<lparr>au_client_id = ''client-1'',
         au_redirect_uri = ''http://localhost:49152/oauth2callback'',
         au_response_type = ''code'', au_access_type = ''offline'',
         au_scope = [''https://www.googleapis.com/auth/gmail.modify'',
                     ''https://www.googleapis.com/auth/gmail.settings.basic'']\<rparr>,
      flow_state =
        \<lparr>oauth2Client = \<lparr>clientId = ''client-1'', clientSecret = ''secret-1'',
                         redirectUri = ''http://localhost:49152/oauth2callback'',
                         credentials = None\<rparr>,
         listening = True, promise = Pending, files = example_disk, responses = [],
         exchanges = [], unhandled = False\<rparr>\<rparr>"

text \<open>The process of \<open>main\<close> while \<open>authenticate\<close> waits on port 3000.\<close>

definition example_process :: "(string, string) process" where
  "example_process = \<lparr>auth = example_state, exit_code = None\<rparr>"

text \<open>
  A platform with the functions \<open>JSON.stringify\<close> and \<open>JSON.parse\<close> above, whose token
  endpoint answers the code \<open>4/abc\<close> with a token set of five properties.
\<close>

definition example_token_set :: token_set where
  "example_token_set =
     [(''access_token'', JString ''ya29.token''), (''refresh_token'', JString ''1//04rt''),
      (''scope'', JString ''https://www.googleapis.com/auth/gmail.modify''),
      (''token_type'', JString ''Bearer''), (''expiry_date'', JNumber 1730000000000)]"

definition json_token_endpoint :: "token_request \<Rightarrow> string + token_set" where
  "json_token_endpoint rq =
     (if tr_code rq = ''4/abc'' then Inr example_token_set else Inl ''invalid_grant'')"

definition json_platform :: "(token_set, string) platform" where
  "json_platform =
     \<lparr>new_URL = example_new_URL, searchParams = example_searchParams,
      token_endpoint = json_token_endpoint, JSON_stringify = JSON_stringify_object,
      JSON_parse = JSON_parse_object,
      CREDENTIALS_PATH = ''/home/user/.gmail-mcp/credentials.json''\<rparr>"

definition json_state :: "(token_set, string) auth_state" where
  "json_state =
     \<lparr>oauth2Client = \<lparr>clientId = ''client-1'', clientSecret = ''secret-1'',
                      redirectUri = ''http://localhost:3000/oauth2callback'', credentials = None\<rparr>,
      listening = True, promise = Pending, files = example_disk, responses = [],
      exchanges = [], unhandled = False\<rparr>"

section \<open>Properties of \<open>processBatches\<close>\<close>

subsection \<open>The loop against the total function\<close>

lemma try_catch_push_results:
  "try_catch (push_results maxArguments acc call) handler =
     (case call of
        (Inr results, s') \<Rightarrow>
          if maxArguments < length results then handler RangeError s'
          else (Inr (acc\<lparr>successes := successes acc @ results\<rparr>), s')
      | (Inl e, s') \<Rightarrow> handler (Thrown e) s')"
  by (simp add: try_catch_def push_results_def split: prod.splits sum.splits)

lemma retryItems_retry_each:
  "retryItems maxArguments processFn batch acc s =
     (Inr (fst (retry_each maxArguments processFn batch acc s)),
      snd (retry_each maxArguments processFn batch acc s))"
proof (induction batch arbitrary: acc s)
  case Nil
  show ?case by simp
next
  case (Cons x rest)
  show ?case
    by (simp add: try_catch_push_results Cons.IH split: prod.splits sum.splits)
qed

lemma slice_drop: "slice xs i (i + n) = take n (drop i xs)"
  by (simp add: slice_def)

lemma chunks_Nil [simp]: "chunks n [] = []"
  by (subst chunks.simps) simp

lemma chunks_step:
  "0 < n \<Longrightarrow> i < length xs \<Longrightarrow>
     chunks n (drop i xs) = take n (drop i xs) # chunks n (drop (i + n) xs)"
  by (subst chunks.simps) (simp add: add.commute)

lemma concat_chunks: "0 < n \<Longrightarrow> concat (chunks n xs) = xs"
proof (induction "length xs" arbitrary: xs rule: less_induct)
  case less
  show ?case
  proof (cases "xs = []")
    case True
    then show ?thesis by simp
  next
    case False
    with less.prems have "length (drop n xs) < length xs" by simp
    from less.hyps [OF this less.prems] False less.prems show ?thesis
      by (subst chunks.simps) simp
  qed
qed

lemma processBatches_loop_run_chunks:
  assumes "0 < batchSize"
  shows "processBatches_loop maxArguments items batchSize processFn i acc s =
           Some (Inr (fst (run_chunks maxArguments processFn
                             (chunks batchSize (drop i items)) acc s)),
                 snd (run_chunks maxArguments processFn
                        (chunks batchSize (drop i items)) acc s))"
proof (induction "length items - i" arbitrary: i acc s rule: less_induct)
  case less
  show ?case
  proof (cases "i < length items")
    case False
    then show ?thesis
      by (subst processBatches_loop.simps) simp
  next
    case True
    have dec: "length items - (i + batchSize) < length items - i"
      using True assms by arith
    note IH = less.hyps [OF dec]
    show ?thesis
      by (subst processBatches_loop.simps)
         (simp add: True chunks_step [OF assms True] slice_drop try_catch_push_results
                    retryItems_retry_each IH split: prod.splits sum.splits)
  qed
qed

lemma processBatches_run_chunks:
  "0 < batchSize \<Longrightarrow>
     processBatches maxArguments items batchSize processFn s =
       Some (Inr (fst (run_chunks maxArguments processFn (chunks batchSize items)
                         \<lparr>successes = [], failures = []\<rparr> s)),
             snd (run_chunks maxArguments processFn (chunks batchSize items)
                    \<lparr>successes = [], failures = []\<rparr> s))"
  using processBatches_loop_run_chunks [of batchSize maxArguments items processFn 0]
  by (simp add: processBatches_def)

subsection \<open>Every item has one outcome\<close>

lemma successes_of_append: "successes_of (os1 @ os2) = successes_of os1 @ successes_of os2"
  by (induction os1 rule: successes_of.induct) simp_all

lemma failures_of_append:
  "length xs = length os1 \<Longrightarrow>
     failures_of (xs @ ys) (os1 @ os2) = failures_of xs os1 @ failures_of ys os2"
proof (induction xs os1 rule: list_induct2)
  case Nil
  show ?case by simp
next
  case (Cons x xs out os1)
  then show ?case by (cases out) simp_all
qed

lemma successes_of_Inr: "successes_of (map Inr rs) = rs"
  by (induction rs) simp_all

lemma failures_of_Inr: "length rs = length xs \<Longrightarrow> failures_of xs (map Inr rs) = []"
  by (induction rs xs rule: list_induct2) simp_all

lemma outcome_from_Inr:
  assumes "operation batch s1 = (Inr results, s2)" and "length results = length batch"
  shows "list_all2 (outcome_from maxArguments operation) batch (map Inr results)"
proof -
  have "outcome_from maxArguments operation (batch ! j) (Inr (results ! j))"
    if "j < length batch" for j
    using that assms(1) by auto
  with assms(2) show ?thesis
    by (simp add: list_all2_conv_all_nth)
qed

lemma outcome_from_key:
  assumes "results_identify_items key operation"
    and "outcome_from maxArguments operation x (Inr u)"
  shows "key u = x"
proof -
  from assms(2) obtain batch s1 results s2 j
    where call: "operation batch s1 = (Inr results, s2)"
      and j: "j < length batch" "batch ! j = x" "results ! j = u"
    by auto
  from assms(1) call have keyed: "map key results = batch"
    unfolding results_identify_items_def by blast
  then have "length results = length batch" by (metis length_map)
  with j keyed show ?thesis by (metis nth_map)
qed

lemma count_outcomes:
  "length outs = length xs \<Longrightarrow>
     length (successes_of outs) + length (failures_of xs (outs :: ('e thrown + 'u) list)) =
       length xs"
proof (induction outs xs rule: list_induct2)
  case Nil
  show ?case by simp
next
  case (Cons out outs x xs)
  then show ?case by (cases out) simp_all
qed

lemma mset_outcomes:
  assumes "results_identify_items key operation"
  shows "list_all2 (outcome_from maxArguments operation) xs outs \<Longrightarrow>
     mset (map key (successes_of outs)) + mset (map item (failures_of xs outs)) = mset xs"
proof (induction xs outs rule: list_all2_induct)
  case Nil
  show ?case by simp
next
  case (Cons x xs out outs)
  show ?case
  proof (cases out)
    case (Inl e)
    with Cons show ?thesis by simp
  next
    case (Inr u)
    with Cons outcome_from_key [OF assms, of maxArguments x u] show ?thesis by simp
  qed
qed

lemma successes_update_eq:
  "(acc :: ('t, 'u, 'e) batch_result)\<lparr>successes := xs\<rparr> = \<lparr>successes = xs, failures = failures acc\<rparr>"
  by (cases acc) simp

lemma failures_update_eq:
  "(acc :: ('t, 'u, 'e) batch_result)\<lparr>failures := fs\<rparr> = \<lparr>successes = successes acc, failures = fs\<rparr>"
  by (cases acc) simp

text \<open>One retried item: the outcome it gets and the accumulator after it.\<close>

lemma retry_one:
  assumes "one_result_per_item operation"
  shows "\<exists>out s1.
           length [out] = length [x] \<and>
           retry_each maxArguments operation (x # rest) acc s =
             retry_each maxArguments operation rest
               \<lparr>successes = successes acc @ successes_of [out],
                failures = failures acc @ failures_of [x] [out]\<rparr> s1 \<and>
           outcome_from maxArguments operation x out"
proof -
  obtain res s1 where call: "operation [x] s = (res, s1)" by (cases "operation [x] s")
  show ?thesis
  proof (cases res)
    case (Inl reason)
    with call show ?thesis
      by (intro exI [of _ "Inl (Thrown reason)"] exI [of _ s1])
         (auto simp add: failures_update_eq)
  next
    case (Inr result)
    with call assms have "length result = length [x]"
      unfolding one_result_per_item_def by blast
    then obtain u where result: "result = [u]"
      by (cases result) simp_all
    show ?thesis
    proof (cases "maxArguments < length result")
      case True
      with call Inr show ?thesis
        by (intro exI [of _ "Inl RangeError"] exI [of _ s1])
           (auto simp add: failures_update_eq)
    next
      case False
      have "\<exists>batch s1 results s2 j. operation batch s1 = (Inr results, s2) \<and>
              j < length batch \<and> batch ! j = x \<and> results ! j = u"
        using call Inr result
        by (intro exI [of _ "[x]"] exI [of _ s] exI [of _ "[u]"] exI [of _ s1] exI [of _ 0]) simp
      with call Inr result False show ?thesis
        by (intro exI [of _ "Inr u"] exI [of _ s1])
           (simp add: successes_update_eq)
    qed
  qed
qed

lemma retry_each_outcomes:
  assumes "one_result_per_item operation"
  shows "\<exists>outs s'. length outs = length batch \<and>
           retry_each maxArguments operation batch acc s =
             (\<lparr>successes = successes acc @ successes_of outs,
               failures = failures acc @ failures_of batch outs\<rparr>, s') \<and>
           list_all2 (outcome_from maxArguments operation) batch outs"
proof (induction batch arbitrary: acc s)
  case Nil
  show ?case by simp
next
  case (Cons x rest)
  from retry_one [OF assms, of x maxArguments rest acc s]
  obtain out s1 where
    step: "retry_each maxArguments operation (x # rest) acc s =
             retry_each maxArguments operation rest
               \<lparr>successes = successes acc @ successes_of [out],
                failures = failures acc @ failures_of [x] [out]\<rparr> s1"
    and tie1: "outcome_from maxArguments operation x out"
    by blast
  from Cons.IH [of "\<lparr>successes = successes acc @ successes_of [out],
                    failures = failures acc @ failures_of [x] [out]\<rparr>" s1]
  obtain outs s' where len: "length outs = length rest"
    and rest: "retry_each maxArguments operation rest
                 \<lparr>successes = successes acc @ successes_of [out],
                  failures = failures acc @ failures_of [x] [out]\<rparr> s1 =
               (\<lparr>successes = (successes acc @ successes_of [out]) @ successes_of outs,
                 failures = (failures acc @ failures_of [x] [out]) @ failures_of rest outs\<rparr>, s')"
    and tie: "list_all2 (outcome_from maxArguments operation) rest outs"
    by auto
  have app_s: "successes_of (out # outs) = successes_of [out] @ successes_of outs"
    using successes_of_append [of "[out]" outs] by simp
  have app_f: "failures_of (x # rest) (out # outs) = failures_of [x] [out] @ failures_of rest outs"
    using failures_of_append [of "[x]" "[out]" rest outs] by simp
  have "length (out # outs) = length (x # rest) \<and>
        retry_each maxArguments operation (x # rest) acc s =
          (\<lparr>successes = successes acc @ successes_of (out # outs),
            failures = failures acc @ failures_of (x # rest) (out # outs)\<rparr>, s') \<and>
        list_all2 (outcome_from maxArguments operation) (x # rest) (out # outs)"
    using len step rest tie tie1 by (simp add: app_s app_f)
  then show ?case by blast
qed

lemma run_chunks_outcomes:
  assumes "one_result_per_item operation"
  shows "\<exists>outs s'. length outs = length (concat cs) \<and>
           run_chunks maxArguments operation cs acc s =
             (\<lparr>successes = successes acc @ successes_of outs,
               failures = failures acc @ failures_of (concat cs) outs\<rparr>, s') \<and>
           list_all2 (outcome_from maxArguments operation) (concat cs) outs"
proof (induction cs arbitrary: acc s)
  case Nil
  show ?case by simp
next
  case (Cons chunk rest)
  obtain res s1 where call: "operation chunk s = (res, s1)" by (cases "operation chunk s")
  have "\<exists>outs1 acc1 s2. length outs1 = length chunk \<and>
          run_chunks maxArguments operation (chunk # rest) acc s =
            run_chunks maxArguments operation rest acc1 s2 \<and>
          acc1 = \<lparr>successes = successes acc @ successes_of outs1,
                   failures = failures acc @ failures_of chunk outs1\<rparr> \<and>
          list_all2 (outcome_from maxArguments operation) chunk outs1"
  proof (cases "\<exists>results. res = Inr results \<and> \<not> maxArguments < length results")
    case True
    then obtain results where res: "res = Inr results"
      and fits: "\<not> maxArguments < length results" by blast
    from call res assms have len: "length results = length chunk"
      unfolding one_result_per_item_def by blast
    have "list_all2 (outcome_from maxArguments operation) chunk (map Inr results)"
      using call res len by (intro outcome_from_Inr [of operation chunk s results s1]) simp_all
    with call res fits len show ?thesis
      by (intro exI [of _ "map Inr results"])
         (auto simp add: successes_of_Inr failures_of_Inr successes_update_eq)
  next
    case False
    from retry_each_outcomes [OF assms, of chunk maxArguments acc s1]
    obtain outs1 s2 where "length outs1 = length chunk"
      and "retry_each maxArguments operation chunk acc s1 =
             (\<lparr>successes = successes acc @ successes_of outs1,
               failures = failures acc @ failures_of chunk outs1\<rparr>, s2)"
      and "list_all2 (outcome_from maxArguments operation) chunk outs1"
      by blast
    with call False show ?thesis by (cases res) auto
  qed
  then obtain outs1 acc1 s2 where len1: "length outs1 = length chunk"
    and step: "run_chunks maxArguments operation (chunk # rest) acc s =
                 run_chunks maxArguments operation rest acc1 s2"
    and acc1: "acc1 = \<lparr>successes = successes acc @ successes_of outs1,
                       failures = failures acc @ failures_of chunk outs1\<rparr>"
    and tie1: "list_all2 (outcome_from maxArguments operation) chunk outs1"
    by blast
  from Cons.IH [of acc1 s2]
  obtain outs2 s' where len2: "length outs2 = length (concat rest)"
    and rest: "run_chunks maxArguments operation rest acc1 s2 =
             (\<lparr>successes = successes acc1 @ successes_of outs2,
               failures = failures acc1 @ failures_of (concat rest) outs2\<rparr>, s')"
    and tie2: "list_all2 (outcome_from maxArguments operation) (concat rest) outs2"
    by blast
  have "length (outs1 @ outs2) = length (concat (chunk # rest)) \<and>
        run_chunks maxArguments operation (chunk # rest) acc s =
          (\<lparr>successes = successes acc @ successes_of (outs1 @ outs2),
            failures = failures acc @ failures_of (concat (chunk # rest)) (outs1 @ outs2)\<rparr>, s') \<and>
        list_all2 (outcome_from maxArguments operation) (concat (chunk # rest)) (outs1 @ outs2)"
    using len1 len2 step rest acc1 tie1 tie2
    by (simp add: successes_of_append failures_of_append list_all2_appendI)
  then show ?case by blast
qed

text \<open>
  C1. For every list of items, every chunk size of at least 1, every operation that returns
  exactly one result per input item when it succeeds (it may throw on any number of chunks and
  items), and whatever number of arguments the engine takes: \<open>processBatches\<close> returns, and
  there is an accounting \<open>outs\<close> that gives each input position exactly one outcome, each of
  them produced by the operation for the item at that position (\<open>outcome_from\<close>). The success
  sequence is the results at the positions that succeeded, the failure sequence is the items
  at the other positions with their reasons, and the two lengths add up to the length of the
  input. Whenever a function \<open>key\<close> tells of each result which item it is for, the items of
  the successes together with the items of the failures are exactly the input, as multisets:
  no item is in both sequences more often than it is in the input, and none is left out.
\<close>

theorem processBatches_accounts_for_every_item:
  assumes "1 \<le> batchSize" and "one_result_per_item processFn"
  shows "\<exists>r s' outs.
           processBatches maxArguments items batchSize processFn s = Some (Inr r, s') \<and>
           length outs = length items \<and>
           list_all2 (outcome_from maxArguments processFn) items outs \<and>
           successes r = successes_of outs \<and>
           failures r = failures_of items outs \<and>
           length (successes r) + length (failures r) = length items \<and>
           (\<forall>key. results_identify_items key processFn \<longrightarrow>
              mset (map key (successes r)) + mset (map item (failures r)) = mset items)"
proof -
  from assms(1) have pos: "0 < batchSize" by simp
  from run_chunks_outcomes [OF assms(2), of "chunks batchSize items" maxArguments
      "\<lparr>successes = [], failures = []\<rparr>" s]
  obtain outs s' where len: "length outs = length items"
    and run: "run_chunks maxArguments processFn (chunks batchSize items)
                \<lparr>successes = [], failures = []\<rparr> s =
                (\<lparr>successes = successes_of outs, failures = failures_of items outs\<rparr>, s')"
    and tie: "list_all2 (outcome_from maxArguments processFn) items outs"
    by (auto simp add: concat_chunks [OF pos])
  let ?r = "\<lparr>successes = successes_of outs, failures = failures_of items outs\<rparr>"
  have run': "processBatches maxArguments items batchSize processFn s = Some (Inr ?r, s')"
    by (simp add: processBatches_run_chunks [OF pos] run)
  have keyed: "\<And>key. results_identify_items key processFn \<Longrightarrow>
      mset (map key (successes ?r)) + mset (map item (failures ?r)) = mset items"
    using mset_outcomes [OF _ tie] by simp
  from run' len tie count_outcomes [OF len] keyed
  have "processBatches maxArguments items batchSize processFn s = Some (Inr ?r, s') \<and>
        length outs = length items \<and>
        list_all2 (outcome_from maxArguments processFn) items outs \<and>
        successes ?r = successes_of outs \<and>
        failures ?r = failures_of items outs \<and>
        length (successes ?r) + length (failures ?r) = length items \<and>
        (\<forall>key. results_identify_items key processFn \<longrightarrow>
              mset (map key (successes ?r)) + mset (map item (failures ?r)) = mset items)"
    by simp
  then show ?thesis by blast
qed

lemma one_result_per_item_recording: "one_result_per_item recording_operation"
  by (simp add: one_result_per_item_def recording_operation_def)

lemma results_identify_items_recording: "results_identify_items (\<lambda>x. x) recording_operation"
  by (simp add: results_identify_items_def recording_operation_def)

lemma recording_run:
  "run_chunks 100000 recording_operation (chunks 2 [''a'', ''b'', ''c''])
     \<lparr>successes = [], failures = []\<rparr> [] =
   (\<lparr>successes = [''a'', ''c''],
     failures = [\<lparr>item = ''b'', error = Thrown ''b is refused''\<rparr>]\<rparr>,
    [[''a'', ''b''], [''a''], [''b''], [''c'']])"
  by (simp add: chunks.simps recording_operation_def)

lemma recording_value:
  "processBatches 100000 [''a'', ''b'', ''c''] 2 recording_operation [] =
     Some (Inr \<lparr>successes = [''a'', ''c''],
                failures = [\<lparr>item = ''b'', error = Thrown ''b is refused''\<rparr>]\<rparr>,
           [[''a'', ''b''], [''a''], [''b''], [''c'']])"
  by (simp add: processBatches_run_chunks recording_run)

theorem processBatches_accounts_for_every_item_witness:
  "(1::nat) \<le> 2 \<and> one_result_per_item recording_operation \<and>
   results_identify_items (\<lambda>x. x) recording_operation \<and>
   processBatches 100000 [''a'', ''b'', ''c''] 2 recording_operation [] =
     Some (Inr \<lparr>successes = [''a'', ''c''],
                failures = [\<lparr>item = ''b'', error = Thrown ''b is refused''\<rparr>]\<rparr>,
           [[''a'', ''b''], [''a''], [''b''], [''c'']]) \<and>
   mset (map (\<lambda>x. x) [''a'', ''c'']) +
     mset (map item [\<lparr>item = ''b'', error = Thrown ''b is refused''\<rparr>]) =
     mset [''a'', ''b'', ''c'']"
proof -
  have size: "(1::nat) \<le> 2" by simp
  from processBatches_accounts_for_every_item
         [OF size one_result_per_item_recording, of 100000 "[''a'', ''b'', ''c'']" "[]"]
  obtain r s' where
    run: "processBatches 100000 [''a'', ''b'', ''c''] 2 recording_operation [] = Some (Inr r, s')"
    and keyed: "\<forall>key. results_identify_items key recording_operation \<longrightarrow>
           mset (map key (successes r)) + mset (map item (failures r)) =
             mset [''a'', ''b'', ''c'']"
    by blast
  from run have r: "r = \<lparr>successes = [''a'', ''c''],
                failures = [\<lparr>item = ''b'', error = Thrown ''b is refused''\<rparr>]\<rparr>"
    by (simp add: recording_value)
  from keyed results_identify_items_recording
  have "mset (map (\<lambda>x. x) (successes r)) + mset (map item (failures r)) =
          mset [''a'', ''b'', ''c'']"
    by blast
  with r size one_result_per_item_recording results_identify_items_recording recording_value
  show ?thesis by simp
qed

subsection \<open>Results too many for one push\<close>

lemma retry_each_counting:
  "1 \<le> maxArguments \<Longrightarrow>
     retry_each maxArguments counting_operation batch acc calls =
       (acc\<lparr>successes := successes acc @ batch\<rparr>, calls + length batch)"
  by (induction batch arbitrary: acc calls) (simp_all add: counting_operation_def)

lemma chunks_whole: "xs \<noteq> [] \<Longrightarrow> chunks (length xs) xs = [xs]"
  by (subst chunks.simps) simp

text \<open>
  C2 does not hold of the code in its last part. \<open>successes.push(...results)\<close> stands inside
  the \<open>try\<close> block whose \<open>catch\<close> starts the retries (the comment there reads "If batch fails,
  try individual items"). When the call on a chunk succeeds with more results than the engine
  takes arguments, the \<open>push\<close> throws, and every item of the chunk is passed to the operation
  again although the call on the whole chunk had succeeded. With an operation that never
  throws and counts its calls, a single chunk of more than \<open>maxArguments\<close> items leads to one
  call more than there are items.
\<close>

theorem oversized_results_are_retried:
  assumes "1 \<le> maxArguments" and "maxArguments < length items"
  shows "processBatches maxArguments items (length items) counting_operation 0 =
           Some (Inr \<lparr>successes = items, failures = []\<rparr>, Suc (length items))"
proof -
  from assms have "items \<noteq> []" by auto
  with assms show ?thesis
    by (simp add: processBatches_run_chunks chunks_whole retry_each_counting
                  counting_operation_def)
qed

theorem oversized_results_are_retried_witness:
  "(1::nat) \<le> 2 \<and> (2::nat) < length [''a'', ''b'', ''c''] \<and>
   processBatches 2 [''a'', ''b'', ''c''] (length [''a'', ''b'', ''c'']) counting_operation 0 =
     Some (Inr \<lparr>successes = [''a'', ''b'', ''c''], failures = []\<rparr>, 4)"
  using oversized_results_are_retried [of 2 "[''a'', ''b'', ''c'']"]
  by (simp add: eval_nat_numeral)

subsection \<open>The example of the specification\<close>

lemma example_run_value:
  "processBatches (Suc n) [''a'', ''b'', ''c'', ''d'', ''e''] 2 (example_operation f) () =
     Some (Inr \<lparr>successes = [f ''a'', f ''b'', f ''c'', f ''d'', f ''e''], failures = []\<rparr>, ())"
  by (simp add: processBatches_run_chunks chunks.simps example_operation_def)

text \<open>
  C9, as stated, fails. On \<open>["a", "b", "c", "d", "e"]\<close> with chunk size 2 and the operation
  that throws on the whole chunk \<open>["c", "d"]\<close> and returns every other batch unchanged, the
  successes are not \<open>["a", "b", "c", "d"]\<close> (here on an engine that takes 100000 arguments).
\<close>

theorem example_run_counterexample:
  "processBatches 100000 [''a'', ''b'', ''c'', ''d'', ''e''] 2
     (example_operation (\<lambda>x. x)) () \<noteq>
     Some (Inr \<lparr>successes = [''a'', ''b'', ''c'', ''d''], failures = []\<rparr>, ())"
  using example_run_value [of 99999 "\<lambda>x. x"] by simp

text \<open>
  C9, amended. On every engine that takes at least one argument, the run produces one success
  for each of the five items, \<open>"e"\<close> included, in input order, and no failure: with the
  operation returning \<open>f x\<close> for an item \<open>x\<close>, the successes are
  \<open>[f "a", f "b", f "c", f "d", f "e"]\<close>.
\<close>

theorem example_run:
  "processBatches (Suc n) [''a'', ''b'', ''c'', ''d'', ''e''] 2 (example_operation f) () =
     Some (Inr \<lparr>successes = map f [''a'', ''b'', ''c'', ''d'', ''e''], failures = []\<rparr>, ())"
  by (simp add: example_run_value)

subsection \<open>Termination\<close>

lemma chunk_attempt_returns:
  "\<exists>acc' s'. try_catch (push_results maxArguments acc (processFn batch s))
                  (\<lambda>error s'. retryItems maxArguments processFn batch acc s') = (Inr acc', s')"
  by (simp add: try_catch_push_results retryItems_retry_each split: prod.splits sum.splits)

lemma processBatches_loop_stuck:
  assumes "processBatches_loop maxArguments items batchSize processFn i acc s = Some y"
  shows "\<not> (batchSize = 0 \<and> i < length items)"
proof (rule processBatches_loop.raw_induct
    [where P = "\<lambda>maxArguments items batchSize processFn i acc s y.
                  \<not> (batchSize = 0 \<and> i < length items)",
     OF _ assms], goal_cases)
  case (1 loop maxArguments items batchSize processFn i acc s y)
  show ?case
  proof
    assume stuck: "batchSize = 0 \<and> i < length items"
    obtain acc' s' where
      "try_catch (push_results maxArguments acc (processFn (slice items i (i + batchSize)) s))
         (\<lambda>error s'. retryItems maxArguments processFn (slice items i (i + batchSize)) acc s') =
       (Inr acc', s')"
      using chunk_attempt_returns [of maxArguments acc processFn "slice items i (i + batchSize)" s]
      by auto
    with 1(2) stuck have "loop maxArguments items batchSize processFn i acc' s' = Some y"
      by simp
    from 1(1) [OF this] stuck show False by simp
  qed
qed

lemma processBatches_zero:
  "items \<noteq> [] \<Longrightarrow> processBatches maxArguments items 0 processFn s = None"
  using processBatches_loop_stuck
          [of maxArguments items 0 processFn 0 "\<lparr>successes = [], failures = []\<rparr>" s]
  by (cases "processBatches maxArguments items 0 processFn s") (auto simp add: processBatches_def)

text \<open>
  C10. \<open>processBatches\<close> returns for every list of items and every operation when the chunk
  size is at least 1; the bound is needed: with chunk size 0 and a list that is not empty the
  index stays where it is and \<open>processBatches\<close> never returns.
\<close>

theorem processBatches_terminates_iff_positive:
  "(1 \<le> batchSize \<longrightarrow>
      (\<exists>r. processBatches maxArguments items batchSize processFn s = Some r)) \<and>
   (items \<noteq> [] \<longrightarrow> processBatches maxArguments items 0 processFn s = None)"
  by (simp add: processBatches_run_chunks processBatches_zero)

theorem processBatches_terminates_iff_positive_witness:
  "(1::nat) \<le> 1 \<and> [''a''] \<noteq> [] \<and>
   (\<exists>r. processBatches 100000 [''a''] 1 recording_operation [] = Some r) \<and>
   processBatches 100000 [''a''] 0 recording_operation [] = None"
  using processBatches_terminates_iff_positive [of 1 100000 "[''a'']" recording_operation "[]"]
  by simp

section \<open>Properties of \<open>authenticate\<close>\<close>

subsection \<open>Binding the port\<close>

lemma tryListen_bound:
  "listen p os = (Listening bound, os1) \<Longrightarrow> tryListen listen p os = Some (Done bound, os1)"
  by (subst tryListen.simps) simp

lemma tryListen_in_use:
  "listen p os = (ListenError (Some ''EADDRINUSE''), os1) \<Longrightarrow>
     tryListen listen p os = tryListen listen 0 os1"
  by (subst tryListen.simps) simp

lemma tryListen_fatal:
  "listen p os = (ListenError code, os1) \<Longrightarrow> code \<noteq> Some ''EADDRINUSE'' \<Longrightarrow>
     tryListen listen p os = Some (ProcessExit 1, os1)"
  by (subst tryListen.simps) simp

text \<open>
  C4. The first attempt is on the preferred port. In a state of the operating system where
  that attempt succeeds, it is the only attempt and the port reported is the one the server is
  bound to. In a state where it fails with \<open>EADDRINUSE\<close>, the second attempt is on port 0,
  and when that one succeeds the port reported is the port bound then, not the preferred one.
  In a state where the first attempt fails with any other error the process exits with code 1
  after that single attempt. So a retry on port 0 happens if and only if the bind failed with
  address-in-use. The attempts are read off the log kept by \<open>logging\<close>.
\<close>

theorem tryListen_falls_back_when_in_use:
  "(listen preferredPort os_free = (Listening bound, os1) \<longrightarrow>
      tryListen (logging listen) preferredPort ([], os_free) =
        Some (Done bound, ([preferredPort], os1)))
   \<and> (listen preferredPort os_busy = (ListenError (Some ''EADDRINUSE''), os2) \<longrightarrow>
        tryListen (logging listen) preferredPort ([], os_busy) =
          tryListen (logging listen) 0 ([preferredPort], os2)
        \<and> (listen 0 os2 = (Listening ephemeral, os3) \<longrightarrow>
             tryListen (logging listen) preferredPort ([], os_busy) =
               Some (Done ephemeral, ([preferredPort, 0], os3))))
   \<and> (listen preferredPort os_bad = (ListenError code, os4) \<and> code \<noteq> Some ''EADDRINUSE'' \<longrightarrow>
        tryListen (logging listen) preferredPort ([], os_bad) =
          Some (ProcessExit 1, ([preferredPort], os4)))"
  by (auto simp add: logging_def tryListen_bound tryListen_in_use tryListen_fatal)

theorem tryListen_falls_back_when_in_use_witness:
  "example_listen 3000 ([], 1024) = (Listening 3000, ([3000], 1024)) \<and>
   tryListen (logging example_listen) 3000 ([], ([], 1024)) =
     Some (Done 3000, ([3000], ([3000], 1024))) \<and>
   example_listen 3000 ([3000], 1024) = (ListenError (Some ''EADDRINUSE''), ([3000], 1024)) \<and>
   example_listen 0 ([3000], 1024) = (Listening 49152, ([49152, 3000], 1024)) \<and>
   tryListen (logging example_listen) 3000 ([], ([3000], 1024)) =
     Some (Done 49152, ([3000, 0], ([49152, 3000], 1024))) \<and>
   example_listen 3000 ([], 4096) = (ListenError (Some ''EACCES''), ([], 4096)) \<and>
   Some ''EACCES'' \<noteq> Some ''EADDRINUSE'' \<and>
   tryListen (logging example_listen) 3000 ([], ([], 4096)) =
     Some (ProcessExit 1, ([3000], ([], 4096)))"
  using tryListen_falls_back_when_in_use
          [of example_listen 3000 "([], 1024)" 3000 "([3000], 1024)"
              "([3000], 1024)" "([3000], 1024)" 49152 "([49152, 3000], 1024)"
              "([], 4096)" "Some ''EACCES''" "([], 4096)"]
  by (auto simp add: example_listen_def)

subsection \<open>The request handler\<close>

lemmas flow_steps =
  respond_def resolve_def reject_def server_close_def setCredentials_def getToken_def
  exchange_and_save_def try_catch_def writeFileSync_def

lemma on_request_ignored:
  "url req = None \<or> (\<exists>u. url req = Some u \<and> \<not> startsWith u pathName) \<Longrightarrow>
     on_request W host finalPort pathName st req = st"
  by (auto simp add: on_request_def)

lemma on_request_no_code:
  assumes "url req = Some u" and "startsWith u pathName"
    and "searchParams W u (''http://'' @ host @ '':'' @ string_of_nat finalPort) = Some params"
    and "map_of params ''code'' = None \<or> map_of params ''code'' = Some []"
  shows "on_request W host finalPort pathName st req =
           reject (Error ''No code provided'') (respond 400 ''No code provided'' st)"
  using assms by (auto simp add: on_request_def)

lemma on_request_success:
  assumes "url req = Some u" and "startsWith u pathName"
    and "searchParams W u (''http://'' @ host @ '':'' @ string_of_nat finalPort) = Some params"
    and "map_of params ''code'' = Some code" and "code \<noteq> []"
    and "token_endpoint W (token_request_of (oauth2Client st) code) = Inr tokens"
    and "CREDENTIALS_PATH W \<notin> unwritable (files st)"
  shows "on_request W host finalPort pathName st req =
           st\<lparr>oauth2Client := (oauth2Client st)\<lparr>credentials := Some tokens\<rparr>,
              listening := False,
              promise := (if promise st = Pending then Fulfilled else promise st),
              files := (files st)\<lparr>contents :=
                 (contents (files st))(CREDENTIALS_PATH W \<mapsto> JSON_stringify W tokens)\<rparr>,
              responses := responses st @
                 [\<lparr>statusCode = 200,
                   responseBody = ''Authentication successful! You can close this window.''\<rparr>],
              exchanges := exchanges st @ [token_request_of (oauth2Client st) code]\<rparr>"
  using assms by (simp add: on_request_def flow_steps Let_def)

lemma on_request_redirectUri:
  "redirectUri (oauth2Client (on_request W host finalPort pathName st req)) =
     redirectUri (oauth2Client st)"
  by (simp add: on_request_def flow_steps Let_def split: option.splits sum.splits)

lemma on_request_exchanges:
  "rq \<in> set (exchanges (on_request W host finalPort pathName st req)) \<Longrightarrow>
     rq \<in> set (exchanges st) \<or> tr_redirect_uri rq = redirectUri (oauth2Client st)"
  by (auto simp add: on_request_def flow_steps Let_def token_request_of_def
           split: option.splits sum.splits if_splits)

lemma serve_invariant:
  "redirectUri (oauth2Client
       (foldl (deliver W host finalPort pathName) st reqs)) = redirectUri (oauth2Client st)
   \<and> (\<forall>rq \<in> set (exchanges (foldl (deliver W host finalPort pathName) st reqs)).
         rq \<in> set (exchanges st) \<or> tr_redirect_uri rq = redirectUri (oauth2Client st))"
proof (induction reqs arbitrary: st)
  case Nil
  show ?case by simp
next
  case (Cons req reqs)
  let ?st1 = "deliver W host finalPort pathName st req"
  have uri: "redirectUri (oauth2Client ?st1) = redirectUri (oauth2Client st)"
    by (simp add: deliver_def on_request_redirectUri)
  have exch: "\<And>rq. rq \<in> set (exchanges ?st1) \<Longrightarrow>
      rq \<in> set (exchanges st) \<or> tr_redirect_uri rq = redirectUri (oauth2Client st)"
    using on_request_exchanges [of _ W host finalPort pathName st req]
    by (simp add: deliver_def split: if_splits)
  from Cons.IH [of ?st1] uri exch show ?case
    by (simp del: foldl_Cons add: foldl_Cons [of _ st req reqs]) blast
qed

lemma authenticate_start_Done:
  assumes "authenticate_start W listen oauthKeys argv3 os disk = Some (Done fl, os')"
  shows "tryListen listen (snd (snd (parse_callback (new_URL W) argv3))) os =
           Some (Done (flow_finalPort fl), os')"
    and "flow_host fl = fst (parse_callback (new_URL W) argv3)"
    and "flow_pathName fl = fst (snd (parse_callback (new_URL W) argv3))"
    and "au_redirect_uri (flow_authUrl fl) =
           finalCallback (flow_host fl) (flow_finalPort fl) (flow_pathName fl)"
    and "redirectUri (oauth2Client (flow_state fl)) =
           finalCallback (flow_host fl) (flow_finalPort fl) (flow_pathName fl)"
    and "exchanges (flow_state fl) = []"
  using assms
  by (auto simp add: authenticate_start_def generateAuthUrl_def Let_def
           split: prod.splits option.splits outcome.splits)

subsection \<open>Runs on the example platform\<close>

lemmas example_defs =
  example_platform_def example_new_URL_def example_searchParams_def example_token_endpoint_def
  example_JSON_stringify_def example_JSON_parse_def example_keys_def example_disk_def
  example_state_def

lemma string_of_nat_49152: "string_of_nat 49152 = ''49152''"
  by (simp add: string_of_nat.simps digit_char_def)

lemma example_bind_busy:
  "tryListen example_listen 3000 ([3000], 1024) = Some (Done 49152, ([49152, 3000], 1024))"
  by (simp add: tryListen_in_use [of _ _ _ "([3000], 1024)"]
                tryListen_bound [of _ _ _ 49152 "([49152, 3000], 1024)"] example_listen_def)

lemma example_start:
  "authenticate_start example_platform example_listen example_keys None ([3000], 1024)
     example_disk = Some (Done example_flow, ([49152, 3000], 1024))"
  by (simp add: authenticate_start_def parse_callback_def example_defs example_bind_busy
                finalCallback_def string_of_nat_49152 generateAuthUrl_def example_flow_def)

lemma example_exchange:
  "exchanges (serve example_platform example_flow [\<lparr>url = Some ''/oauth2callback?code=4/abc''\<rparr>]) =
     [\<lparr>tr_code = ''4/abc'', tr_client_id = ''client-1'', tr_client_secret = ''secret-1'',
       tr_redirect_uri = ''http://localhost:49152/oauth2callback''\<rparr>]"
  by (simp add: serve_def deliver_def on_request_def example_flow_def example_defs
                startsWith_def flow_steps token_request_of_def Let_def)

lemma example_error_request:
  "on_request example_platform ''localhost'' 3000 ''/oauth2callback'' example_state
     \<lparr>url = Some ''/oauth2callback?error=access_denied''\<rparr> =
   reject (Error ''No code provided'') (respond 400 ''No code provided'' example_state)"
  by (simp add: on_request_def startsWith_def example_platform_def example_searchParams_def)

lemma example_valid_request:
  "url \<lparr>url = Some ''/oauth2callback?code=4/abc''\<rparr> = Some ''/oauth2callback?code=4/abc''"
  "startsWith ''/oauth2callback?code=4/abc'' ''/oauth2callback''"
  "searchParams example_platform ''/oauth2callback?code=4/abc''
     (''http://'' @ ''localhost'' @ '':'' @ string_of_nat 3000) = Some [(''code'', ''4/abc'')]"
  "map_of [(''code'', ''4/abc'')] ''code'' = Some ''4/abc''"
  "''4/abc'' \<noteq> []"
  "token_endpoint example_platform (token_request_of (oauth2Client example_state) ''4/abc'') =
     Inr ''ya29.token''"
  "CREDENTIALS_PATH example_platform \<notin> unwritable (files example_state)"
  by (simp_all add: startsWith_def example_defs token_request_of_def)

subsection \<open>The redirect URI\<close>

text \<open>
  C3. Whenever \<open>authenticate\<close> gets past the bind, for every requested callback (host, path,
  preferred port) and whichever port was bound in the end, preferred or assigned after a
  fallback: the port \<open>flow_finalPort\<close> is the one \<open>tryListen\<close> reported as bound; the redirect
  URI in the authorization address is \<open>http://host:port/path\<close> with that port in decimal;
  and after any sequence of requests the client that \<open>getToken\<close> is called on still has that
  same redirect URI, so every request sent to the token endpoint carries the very string that
  the authorization address carries.
\<close>

theorem redirect_uri_carries_bound_port:
  assumes "authenticate_start W listen oauthKeys argv3 os disk = Some (Done fl, os')"
  shows "tryListen listen (snd (snd (parse_callback (new_URL W) argv3))) os =
           Some (Done (flow_finalPort fl), os')
       \<and> au_redirect_uri (flow_authUrl fl) =
           ''http://'' @ flow_host fl @ '':'' @ string_of_nat (flow_finalPort fl) @ flow_pathName fl
       \<and> (\<forall>reqs.
            redirectUri (oauth2Client (serve W fl reqs)) = au_redirect_uri (flow_authUrl fl) \<and>
            (\<forall>rq \<in> set (exchanges (serve W fl reqs)).
               tr_redirect_uri rq = au_redirect_uri (flow_authUrl fl)))"
proof -
  note start = authenticate_start_Done [OF assms]
  have "\<And>reqs. redirectUri (oauth2Client (serve W fl reqs)) = au_redirect_uri (flow_authUrl fl) \<and>
      (\<forall>rq \<in> set (exchanges (serve W fl reqs)).
         tr_redirect_uri rq = au_redirect_uri (flow_authUrl fl))"
    using serve_invariant [of W "flow_host fl" "flow_finalPort fl" "flow_pathName fl" "flow_state fl"]
    by (simp add: serve_def start(4,5,6))
  with start(1,4) show ?thesis
    by (simp add: finalCallback_def)
qed

theorem redirect_uri_carries_bound_port_witness:
  "authenticate_start example_platform example_listen example_keys None ([3000], 1024)
     example_disk = Some (Done example_flow, ([49152, 3000], 1024)) \<and>
   flow_finalPort example_flow = 49152 \<and>
   au_redirect_uri (flow_authUrl example_flow) = ''http://localhost:49152/oauth2callback'' \<and>
   map tr_redirect_uri
     (exchanges (serve example_platform example_flow
                   [\<lparr>url = Some ''/oauth2callback?code=4/abc''\<rparr>])) =
     [''http://localhost:49152/oauth2callback'']"
proof -
  from redirect_uri_carries_bound_port [OF example_start]
  have every: "\<forall>rq \<in> set (exchanges (serve example_platform example_flow
                             [\<lparr>url = Some ''/oauth2callback?code=4/abc''\<rparr>])).
      tr_redirect_uri rq = au_redirect_uri (flow_authUrl example_flow)"
    by blast
  have uri: "au_redirect_uri (flow_authUrl example_flow) = ''http://localhost:49152/oauth2callback''"
    by (simp add: example_flow_def)
  have bound: "flow_finalPort example_flow = 49152"
    by (simp add: example_flow_def)
  from every uri bound example_start show ?thesis
    by (simp add: example_exchange)
qed

subsection \<open>What a callback request leads to\<close>

text \<open>
  C5, as stated, fails in its second half. The request \<open>/oauth2callback?error=access_denied\<close>
  carries an \<open>error\<close> parameter and no code; the promise is rejected with the error
  \<open>No code provided\<close>, the very outcome of a request without any parameter. The handler never
  reads the \<open>error\<close> parameter and has no other rejection for it.
\<close>

theorem error_parameter_counterexample:
  "example_searchParams ''/oauth2callback?error=access_denied'' ''http://localhost:3000'' =
     Some [(''error'', ''access_denied'')] \<and>
   promise (on_request example_platform ''localhost'' 3000 ''/oauth2callback'' example_state
              \<lparr>url = Some ''/oauth2callback?error=access_denied''\<rparr>) =
     Rejected (Error ''No code provided'')"
proof -
  have "promise (on_request example_platform ''localhost'' 3000 ''/oauth2callback'' example_state
              \<lparr>url = Some ''/oauth2callback?error=access_denied''\<rparr>) =
     Rejected (Error ''No code provided'')"
    by (subst example_error_request) (simp add: reject_def respond_def example_state_def)
  then show ?thesis
    by (simp add: example_searchParams_def)
qed

text \<open>
  C5, amended. For every request that reaches the handler on the callback path while the flow
  is pending: if its query has no \<open>code\<close> parameter, or an empty one, the promise is rejected
  with the error \<open>No code provided\<close>, the response is 400, no token exchange is made and no
  file is written. This holds whatever other parameters the query carries, an \<open>error\<close>
  parameter included.
\<close>

theorem missing_code_is_rejected:
  assumes "url req = Some u" and "startsWith u pathName"
    and "searchParams W u (''http://'' @ host @ '':'' @ string_of_nat finalPort) = Some params"
    and "map_of params ''code'' = None \<or> map_of params ''code'' = Some []"
    and "promise st = Pending"
  shows "promise (on_request W host finalPort pathName st req) =
           Rejected (Error ''No code provided'')
       \<and> responses (on_request W host finalPort pathName st req) =
           responses st @ [\<lparr>statusCode = 400, responseBody = ''No code provided''\<rparr>]
       \<and> exchanges (on_request W host finalPort pathName st req) = exchanges st
       \<and> files (on_request W host finalPort pathName st req) = files st"
  using assms(5)
  by (simp add: on_request_no_code [OF assms(1-4)] reject_def respond_def)

theorem missing_code_is_rejected_witness:
  "url \<lparr>url = Some ''/oauth2callback?error=access_denied''\<rparr> =
     Some ''/oauth2callback?error=access_denied'' \<and>
   startsWith ''/oauth2callback?error=access_denied'' ''/oauth2callback'' \<and>
   searchParams example_platform ''/oauth2callback?error=access_denied''
     (''http://'' @ ''localhost'' @ '':'' @ string_of_nat 3000) =
     Some [(''error'', ''access_denied'')] \<and>
   map_of [(''error'', ''access_denied'')] ''code'' = None \<and>
   promise example_state = Pending \<and>
   promise (on_request example_platform ''localhost'' 3000 ''/oauth2callback'' example_state
              \<lparr>url = Some ''/oauth2callback?error=access_denied''\<rparr>) =
     Rejected (Error ''No code provided'') \<and>
   responses (on_request example_platform ''localhost'' 3000 ''/oauth2callback'' example_state
              \<lparr>url = Some ''/oauth2callback?error=access_denied''\<rparr>) =
     [\<lparr>statusCode = 400, responseBody = ''No code provided''\<rparr>]"
proof -
  have a: "url \<lparr>url = Some ''/oauth2callback?error=access_denied''\<rparr> =
     Some ''/oauth2callback?error=access_denied''"
    by simp
  have b: "startsWith ''/oauth2callback?error=access_denied'' ''/oauth2callback''"
    by (simp add: startsWith_def)
  have c: "searchParams example_platform ''/oauth2callback?error=access_denied''
     (''http://'' @ ''localhost'' @ '':'' @ string_of_nat 3000) =
     Some [(''error'', ''access_denied'')]"
    by (simp add: example_platform_def example_searchParams_def)
  have d: "map_of [(''error'', ''access_denied'')] ''code'' = None \<or>
           map_of [(''error'', ''access_denied'')] ''code'' = Some []"
    by simp
  have e: "promise example_state = Pending"
    by (simp add: example_state_def)
  from missing_code_is_rejected [OF a b c d e] a b c e show ?thesis
    by (simp add: example_state_def)
qed

lemma on_request_callback_outcome:
  assumes "promise st = Pending"
    and "url req = Some u" and "startsWith u pathName"
    and "searchParams W u (''http://'' @ host @ '':'' @ string_of_nat finalPort) = Some params"
  shows "length (responses (on_request W host finalPort pathName st req)) =
           Suc (length (responses st)) \<and>
         (promise (on_request W host finalPort pathName st req) = Fulfilled \<and>
            \<not> listening (on_request W host finalPort pathName st req)
          \<or> (\<exists>r. promise (on_request W host finalPort pathName st req) = Rejected r))"
  using assms
  by (auto simp add: on_request_def flow_steps Let_def split: option.splits sum.splits)

text \<open>
  C6. In the process that \<open>main\<close> runs, once a request on the callback path has been
  received and answered while the flow was pending, no further connection is accepted,
  whether the request carried a code or not. On the success outcome the handler calls
  \<open>server.close()\<close>, the promise is fulfilled and \<open>main\<close> ends the process with code 0. On
  a failure outcome (no code, a code the token endpoint refuses, a credentials file that cannot
  be written) the handler does not close the server, but the promise is rejected and \<open>main\<close>
  ends the process with code 1. In both cases a later request is not handled any more.
\<close>

theorem callback_is_single_shot:
  assumes "exit_code P = None" and "listening (auth P)" and "promise (auth P) = Pending"
    and "url req = Some u" and "startsWith u pathName"
    and "searchParams W u (''http://'' @ host @ '':'' @ string_of_nat finalPort) = Some params"
  shows "\<exists>P'. main_turn W host finalPort pathName P req = P' \<and>
           length (responses (auth P')) = Suc (length (responses (auth P))) \<and>
           (exit_code P' = Some 0 \<and> promise (auth P') = Fulfilled \<and> \<not> listening (auth P')
            \<or> exit_code P' = Some 1 \<and> (\<exists>r. promise (auth P') = Rejected r)) \<and>
           (\<forall>later. main_turn W host finalPort pathName P' later = P')"
proof -
  let ?st = "on_request W host finalPort pathName (auth P) req"
  let ?P' = "\<lparr>auth = ?st, exit_code = main_exit (promise ?st)\<rparr>"
  have turn: "main_turn W host finalPort pathName P req = ?P'"
    using assms(1,2) by (simp add: main_turn_def deliver_def Let_def)
  from on_request_callback_outcome [OF assms(3-6)]
  have out: "length (responses ?st) = Suc (length (responses (auth P)))"
    and settled: "promise ?st = Fulfilled \<and> \<not> listening ?st \<or> (\<exists>r. promise ?st = Rejected r)"
    by blast+
  from settled have ended:
    "exit_code ?P' = Some 0 \<and> promise (auth ?P') = Fulfilled \<and> \<not> listening (auth ?P')
     \<or> exit_code ?P' = Some 1 \<and> (\<exists>r. promise (auth ?P') = Rejected r)"
    by (auto simp add: main_exit_def)
  then have "\<And>later. main_turn W host finalPort pathName ?P' later = ?P'"
    by (auto simp add: main_turn_def)
  with turn out ended show ?thesis by simp
qed

theorem callback_is_single_shot_witness:
  "exit_code example_process = None \<and> listening (auth example_process) \<and>
   promise (auth example_process) = Pending \<and>
   url \<lparr>url = Some ''/oauth2callback''\<rparr> = Some ''/oauth2callback'' \<and>
   startsWith ''/oauth2callback'' ''/oauth2callback'' \<and>
   searchParams example_platform ''/oauth2callback''
     (''http://'' @ ''localhost'' @ '':'' @ string_of_nat 3000) = Some [] \<and>
   exit_code (main_turn example_platform ''localhost'' 3000 ''/oauth2callback'' example_process
                \<lparr>url = Some ''/oauth2callback''\<rparr>) = Some 1 \<and>
   main_turn example_platform ''localhost'' 3000 ''/oauth2callback''
     (main_turn example_platform ''localhost'' 3000 ''/oauth2callback'' example_process
        \<lparr>url = Some ''/oauth2callback''\<rparr>)
     \<lparr>url = Some ''/oauth2callback?code=4/abc''\<rparr> =
   main_turn example_platform ''localhost'' 3000 ''/oauth2callback'' example_process
     \<lparr>url = Some ''/oauth2callback''\<rparr>"
proof -
  have running: "exit_code example_process = None" "listening (auth example_process)"
    "promise (auth example_process) = Pending"
    by (simp_all add: example_process_def example_state_def)
  have target: "url \<lparr>url = Some ''/oauth2callback''\<rparr> = Some ''/oauth2callback''"
    "startsWith ''/oauth2callback'' ''/oauth2callback''"
    "searchParams example_platform ''/oauth2callback''
       (''http://'' @ ''localhost'' @ '':'' @ string_of_nat 3000) = Some []"
    by (simp_all add: startsWith_def example_platform_def example_searchParams_def)
  from callback_is_single_shot [OF running target]
  have closed: "main_turn example_platform ''localhost'' 3000 ''/oauth2callback''
     (main_turn example_platform ''localhost'' 3000 ''/oauth2callback'' example_process
        \<lparr>url = Some ''/oauth2callback''\<rparr>)
     \<lparr>url = Some ''/oauth2callback?code=4/abc''\<rparr> =
   main_turn example_platform ''localhost'' 3000 ''/oauth2callback'' example_process
     \<lparr>url = Some ''/oauth2callback''\<rparr>"
    by blast
  have ended: "exit_code (main_turn example_platform ''localhost'' 3000 ''/oauth2callback''
                example_process \<lparr>url = Some ''/oauth2callback''\<rparr>) = Some 1"
    by (simp add: main_turn_def deliver_def on_request_def startsWith_def example_process_def
                  example_defs flow_steps main_exit_def Let_def)
  from running target closed ended show ?thesis by blast
qed

text \<open>
  C7, as stated, fails. The handler compares by prefix: the request
  \<open>/oauth2callback/favicon.ico\<close> has a path other than the callback path \<open>/oauth2callback\<close>,
  yet it is taken for the callback and rejects the promise.
\<close>

theorem prefix_match_counterexample:
  "request_path ''/oauth2callback/favicon.ico'' \<noteq> ''/oauth2callback'' \<and>
   promise (on_request example_platform ''localhost'' 3000 ''/oauth2callback'' example_state
              \<lparr>url = Some ''/oauth2callback/favicon.ico''\<rparr>) =
     Rejected (Error ''No code provided'')"
  by (simp add: request_path_def on_request_def startsWith_def example_defs flow_steps)

text \<open>
  C7, amended. A request without a target, or whose target does not start with the callback
  path, changes nothing: the promise is neither resolved nor rejected and no response is
  written. A request on the callback path that follows it, with a code the token endpoint
  accepts (and a credentials file that can be written), resolves the pending promise.
\<close>

theorem unrelated_request_is_ignored:
  assumes "url req = None \<or> (\<exists>u. url req = Some u \<and> \<not> startsWith u pathName)"
    and "listening st" and "promise st = Pending"
    and "url req2 = Some u2" and "startsWith u2 pathName"
    and "searchParams W u2 (''http://'' @ host @ '':'' @ string_of_nat finalPort) = Some params"
    and "map_of params ''code'' = Some code" and "code \<noteq> []"
    and "token_endpoint W (token_request_of (oauth2Client st) code) = Inr tokens"
    and "CREDENTIALS_PATH W \<notin> unwritable (files st)"
  shows "deliver W host finalPort pathName st req = st
       \<and> promise (deliver W host finalPort pathName
                    (deliver W host finalPort pathName st req) req2) = Fulfilled"
proof -
  have ignored: "deliver W host finalPort pathName st req = st"
    using on_request_ignored [OF assms(1), of W host finalPort st] by (simp add: deliver_def)
  have "promise (deliver W host finalPort pathName st req2) = Fulfilled"
    using assms(2,3) by (simp add: deliver_def on_request_success [OF assms(4-10)])
  with ignored show ?thesis by simp
qed

theorem unrelated_request_is_ignored_witness:
  "url \<lparr>url = Some ''/favicon.ico''\<rparr> = Some ''/favicon.ico'' \<and>
   \<not> startsWith ''/favicon.ico'' ''/oauth2callback'' \<and>
   listening example_state \<and> promise example_state = Pending \<and>
   startsWith ''/oauth2callback?code=4/abc'' ''/oauth2callback'' \<and>
   searchParams example_platform ''/oauth2callback?code=4/abc''
     (''http://'' @ ''localhost'' @ '':'' @ string_of_nat 3000) = Some [(''code'', ''4/abc'')] \<and>
   token_endpoint example_platform (token_request_of (oauth2Client example_state) ''4/abc'') =
     Inr ''ya29.token'' \<and>
   CREDENTIALS_PATH example_platform \<notin> unwritable (files example_state) \<and>
   deliver example_platform ''localhost'' 3000 ''/oauth2callback'' example_state
     \<lparr>url = Some ''/favicon.ico''\<rparr> = example_state \<and>
   promise (deliver example_platform ''localhost'' 3000 ''/oauth2callback''
              (deliver example_platform ''localhost'' 3000 ''/oauth2callback'' example_state
                 \<lparr>url = Some ''/favicon.ico''\<rparr>)
              \<lparr>url = Some ''/oauth2callback?code=4/abc''\<rparr>) = Fulfilled"
proof -
  have other: "url \<lparr>url = Some ''/favicon.ico''\<rparr> = None \<or>
    (\<exists>u. url \<lparr>url = Some ''/favicon.ico''\<rparr> = Some u \<and> \<not> startsWith u ''/oauth2callback'')"
    by (simp add: startsWith_def)
  have open_pending: "listening example_state" "promise example_state = Pending"
    by (simp_all add: example_state_def)
  have target: "url \<lparr>url = Some ''/favicon.ico''\<rparr> = Some ''/favicon.ico''"
    and elsewhere: "\<not> startsWith ''/favicon.ico'' ''/oauth2callback''"
    by (simp_all add: startsWith_def)
  from unrelated_request_is_ignored [OF other open_pending example_valid_request]
       target elsewhere open_pending example_valid_request(2,3,6,7)
  show ?thesis by blast
qed

subsection \<open>Saving and loading the credentials\<close>

text \<open>What \<open>JSON.parse\<close> reads back from the text that \<open>JSON.stringify\<close> writes.\<close>

lemma below_16:
  "(d :: nat) < 16 \<Longrightarrow> d \<in> {0, 1, 2, 3, 4, 5, 6, 7, 8, 9, 10, 11, 12, 13, 14, 15}"
  by (simp add: eval_nat_numeral less_Suc_eq)

lemma below_10:
  "(d :: nat) < 10 \<Longrightarrow> d \<in> {0, 1, 2, 3, 4, 5, 6, 7, 8, 9}"
  by (simp add: eval_nat_numeral less_Suc_eq)

lemma hex_val_hex_digit: "d < 16 \<Longrightarrow> hex_val (hex_digit d) = Some d"
  using below_16 [of d] by (auto simp add: hex_digit_def hex_val_def)

lemma code_unit_escape:
  "of_char c < (256 :: nat) \<Longrightarrow>
     code_unit (CHR ''0'') (CHR ''0'') (hex_digit (of_char c div 16)) (hex_digit (of_char c mod 16))
       = Some c"
proof -
  assume small: "of_char c < (256 :: nat)"
  have zero: "hex_val (CHR ''0'') = Some 0" by (simp add: hex_val_def)
  have hi: "hex_val (hex_digit (of_char c div 16)) = Some (of_char c div 16)"
    using small by (intro hex_val_hex_digit) presburger
  have lo: "hex_val (hex_digit (of_char c mod 16)) = Some (of_char c mod 16)"
    by (intro hex_val_hex_digit) simp
  show ?thesis
    using small by (simp add: code_unit_def zero hi lo)
qed

lemma of_char_less_256: "of_char c < (256 :: nat)"
  by (cases c) (simp add: of_char_def)

lemma parse_chars_escape_char:
  "parse_chars (escape_char c @ cs) = cons_char c (parse_chars cs)"
proof -
  consider (quote) "c = CHR 0x22" | (backslash) "c = CHR 0x5C"
    | (b) "c = CHR 0x08" | (t) "c = CHR 0x09" | (n) "c = CHR 0x0A" | (f) "c = CHR 0x0C"
    | (r) "c = CHR 0x0D"
    | (control) "c \<noteq> CHR 0x22" "c \<noteq> CHR 0x5C" "c \<noteq> CHR 0x08" "c \<noteq> CHR 0x09"
        "c \<noteq> CHR 0x0A" "c \<noteq> CHR 0x0C" "c \<noteq> CHR 0x0D" "of_char c < (0x20 :: nat)"
    | (plain) "c \<noteq> CHR 0x22" "c \<noteq> CHR 0x5C" "\<not> of_char c < (0x20 :: nat)"
    by fastforce
  then show ?thesis
  proof cases
    case control
    then show ?thesis
      by (simp add: escape_char_def code_unit_escape [OF of_char_less_256])
  next
    case plain
    then have "escape_char c = [c]"
      by (auto simp add: escape_char_def)
    with plain show ?thesis by simp
  qed (simp_all add: escape_char_def unescape_def)
qed

lemma parse_chars_quoted:
  "parse_chars (concat (map escape_char s) @ CHR 0x22 # rest) = Some (s, rest)"
  by (induction s) (simp_all add: parse_chars_escape_char cons_char_def)

lemma digit_char_props:
  assumes "d < 10"
  shows "is_digit (digit_char d)" and "digit_val (digit_char d) = d"
    and "digit_char d = CHR ''0'' \<longleftrightarrow> d = 0"
  using below_10 [OF assms] by (auto simp add: digit_char_def is_digit_def digit_val_def)

lemma string_of_nat_digits: "list_all is_digit (string_of_nat n)"
  by (induction n rule: string_of_nat.induct)
     (subst string_of_nat.simps, simp add: digit_char_props)

lemma string_of_nat_nonempty: "string_of_nat n \<noteq> []"
  by (subst string_of_nat.simps) simp

lemma nat_of_digits_snoc:
  "nat_of_digits (ds @ [c]) = 10 * nat_of_digits ds + digit_val c"
  by (simp add: nat_of_digits_def)

lemma nat_of_digits_string_of_nat: "nat_of_digits (string_of_nat n) = n"
proof (induction n rule: string_of_nat.induct)
  case (1 n)
  show ?case
  proof (cases "n < 10")
    case True
    then show ?thesis
      by (subst string_of_nat.simps) (simp add: nat_of_digits_def digit_char_props)
  next
    case False
    with 1 show ?thesis
      by (subst string_of_nat.simps) (simp add: nat_of_digits_snoc digit_char_props)
  qed
qed

lemma string_of_nat_leading_zero:
  "hd (string_of_nat n) = CHR ''0'' \<Longrightarrow> n = 0"
proof (induction n rule: string_of_nat.induct)
  case (1 n)
  show ?case
  proof (cases "n < 10")
    case True
    with 1(2) show ?thesis
      by (subst (asm) string_of_nat.simps) (simp add: digit_char_props)
  next
    case False
    from 1(2) have "hd (string_of_nat (n div 10)) = CHR ''0''"
      by (subst (asm) string_of_nat.simps) (simp add: False string_of_nat_nonempty)
    with 1(1) False have "n div 10 = 0" by simp
    with False show ?thesis by simp
  qed
qed

lemma string_of_nat_zero: "string_of_nat 0 = ''0''"
  by (subst string_of_nat.simps) (simp add: digit_char_def)

lemma parse_digits_string_of_nat:
  assumes "rest = [] \<or> \<not> is_digit (hd rest)"
  shows "parse_digits (string_of_nat n @ rest) = Some (n, rest)"
proof -
  have all: "\<forall>c \<in> set (string_of_nat n). is_digit c"
    using string_of_nat_digits [of n] by (simp add: list_all_iff)
  have stop: "takeWhile is_digit rest = []" "dropWhile is_digit rest = rest"
    using assms by (cases rest; simp)+
  have tw: "takeWhile is_digit (string_of_nat n @ rest) = string_of_nat n"
    using all stop by (simp add: takeWhile_append2)
  have dw: "dropWhile is_digit (string_of_nat n @ rest) = rest"
    using all stop by (simp add: dropWhile_append2)
  have lead: "\<not> (1 < length (string_of_nat n) \<and> hd (string_of_nat n) = CHR ''0'')"
    using string_of_nat_leading_zero [of n] by (auto simp add: string_of_nat_zero)
  show ?thesis
    using lead by (simp add: parse_digits_def Let_def tw dw string_of_nat_nonempty
        nat_of_digits_string_of_nat)
qed

lemma hd_string_of_nat_digit: "is_digit (hd (string_of_nat n))"
  using string_of_nat_digits [of n] string_of_nat_nonempty [of n]
  by (cases "string_of_nat n") simp_all

lemma parse_value_stringify_value:
  assumes "rest = [] \<or> \<not> is_digit (hd rest)"
  shows "parse_value (stringify_value v @ rest) = Some (v, rest)"
proof (cases v)
  case (JString s)
  then show ?thesis
    by (simp add: parse_value_def quote_string_def parse_chars_quoted)
next
  case (JNumber i)
  show ?thesis
  proof (cases "i < 0")
    case True
    then show ?thesis
      using JNumber parse_digits_string_of_nat [OF assms, of "nat (- i)"]
      by (simp add: parse_value_def string_of_int_def)
  next
    case False
    obtain c cs where split: "string_of_nat (nat i) = c # cs"
      using string_of_nat_nonempty [of "nat i"] by (cases "string_of_nat (nat i)") auto
    have digit: "is_digit c"
      using hd_string_of_nat_digit [of "nat i"] split by simp
    then have "c \<noteq> CHR 0x22" "c \<noteq> CHR ''-''"
      by (auto simp add: is_digit_def)
    with digit False JNumber split parse_digits_string_of_nat [OF assms, of "nat i"]
    show ?thesis
      by (simp add: parse_value_def string_of_int_def)
  qed
next
  case (JBool b)
  then show ?thesis
    by (cases b) (simp_all add: parse_value_def is_digit_def)
next
  case JNull
  then show ?thesis
    by (simp add: parse_value_def is_digit_def)
qed

lemma skip_space_no_space: "\<not> is_space c \<Longrightarrow> skip_space (c # cs) = c # cs"
  by (simp add: skip_space_def)

lemma skip_space_Nil: "skip_space [] = []"
  by (simp add: skip_space_def)

lemma stringify_value_starts:
  "\<exists>c cs. stringify_value v = c # cs \<and> \<not> is_space c"
proof (cases v)
  case (JString s)
  then show ?thesis by (simp add: quote_string_def is_space_def)
next
  case (JNumber i)
  obtain c cs where split: "string_of_nat (nat i) = c # cs"
    using string_of_nat_nonempty [of "nat i"] by (cases "string_of_nat (nat i)") auto
  have "is_digit c"
    using hd_string_of_nat_digit [of "nat i"] split by simp
  then have "\<not> is_space c"
    by (auto simp add: is_digit_def is_space_def)
  with JNumber split show ?thesis
    by (simp add: string_of_int_def is_space_def)
next
  case (JBool b)
  then show ?thesis by (cases b) (simp_all add: is_space_def)
next
  case JNull
  then show ?thesis by (simp add: is_space_def)
qed

lemma skip_space_stringify_value:
  "skip_space (stringify_value v @ rest) = stringify_value v @ rest"
proof -
  obtain c cs where "stringify_value v = c # cs" "\<not> is_space c"
    using stringify_value_starts by blast
  then show ?thesis by (simp add: skip_space_no_space)
qed

lemma parse_member_stringify_member:
  assumes "c = CHR '','' \<or> c = CHR ''}''"
  shows "parse_member (stringify_member (k, v) @ c # rest) = Some ((k, v), c # rest)"
proof -
  have c: "\<not> is_space c" "c # rest = [] \<or> \<not> is_digit (hd (c # rest))"
    using assms by (auto simp add: is_space_def is_digit_def)
  have quote: "\<not> is_space (CHR 0x22)" and colon: "\<not> is_space (CHR '':'')"
    by (simp_all add: is_space_def)
  show ?thesis
    by (simp add: parse_member_def stringify_member_def quote_string_def
        skip_space_no_space [OF quote] skip_space_no_space [OF colon] parse_chars_quoted
        skip_space_stringify_value parse_value_stringify_value [OF c(2)]
        skip_space_no_space [OF c(1)])
qed

lemma stringify_member_nonempty: "stringify_member m \<noteq> []"
  by (simp add: stringify_member_def quote_string_def)

lemma parse_members_join_members:
  "parse_members (join_members (stringify_member m # map stringify_member ms) @ CHR ''}'' # rest)
     = Some (m # ms, rest)"
proof (induction ms arbitrary: m)
  case Nil
  obtain k v where m: "m = (k, v)" by (cases m)
  show ?case
    by (subst parse_members.simps)
       (simp add: m parse_member_stringify_member stringify_member_nonempty)
next
  case (Cons m' ms)
  obtain k v where m: "m = (k, v)" by (cases m)
  have member: "parse_member (stringify_member (k, v) @ CHR '','' #
      join_members (stringify_member m' # map stringify_member ms) @ CHR ''}'' # rest)
    = Some ((k, v), CHR '','' #
        join_members (stringify_member m' # map stringify_member ms) @ CHR ''}'' # rest)"
    by (rule parse_member_stringify_member) simp
  show ?case
    by (subst parse_members.simps)
       (simp add: m member Cons.IH stringify_member_nonempty)
qed

lemma set_property_new:
  "k \<notin> fst ` set props \<Longrightarrow> set_property k v props = props @ [(k, v)]"
  by (induction props) auto

lemma set_properties_distinct:
  "distinct (map fst (props @ ms)) \<Longrightarrow>
     foldl (\<lambda>props m. set_property (fst m) (snd m) props) props ms = props @ ms"
proof (induction ms arbitrary: props)
  case Nil
  then show ?case by simp
next
  case (Cons m ms)
  from Cons.prems have new: "fst m \<notin> fst ` set props"
    by auto
  from Cons.prems have "distinct (map fst ((props @ [m]) @ ms))"
    by simp
  from Cons.IH [OF this] show ?case
    by (simp add: set_property_new [OF new])
qed

lemma join_members_starts:
  "\<exists>t. join_members (stringify_member m # map stringify_member ms) = CHR 0x22 # t"
  by (cases ms) (simp_all add: stringify_member_def quote_string_def)

lemma JSON_round_trip:
  assumes "distinct (map fst tokens)"
  shows "JSON_parse_object (JSON_stringify_object tokens) = Some tokens"
proof (cases tokens)
  case Nil
  then show ?thesis
    by (simp add: JSON_parse_object_def JSON_stringify_object_def skip_space_def is_space_def)
next
  case (Cons m ms)
  obtain t where t: "join_members (stringify_member m # map stringify_member ms) = CHR 0x22 # t"
    using join_members_starts by blast
  have members: "parse_members (CHR 0x22 # t @ ''}'') = Some (m # ms, [])"
    using parse_members_join_members [of m ms "[]"] by (simp add: t)
  have props: "foldl (\<lambda>props m. set_property (fst m) (snd m) props) [] (m # ms) = m # ms"
    using set_properties_distinct [of "[]" "m # ms"] assms Cons by simp
  have brace: "\<not> is_space (CHR ''{'')" and quote: "\<not> is_space (CHR 0x22)"
    by (simp_all add: is_space_def)
  have "JSON_stringify_object tokens = CHR ''{'' # CHR 0x22 # t @ ''}''"
    using t by (simp add: JSON_stringify_object_def Cons)
  then show ?thesis
    using members props
    by (simp add: JSON_parse_object_def skip_space_no_space [OF brace]
        skip_space_no_space [OF quote] skip_space_Nil Cons del: foldl.simps)
qed

text \<open>The text of the example token set, and a text with white space, an escape and a name twice.\<close>

lemma example_credentials_text:
  "JSON_stringify_object example_token_set =
     ''{'' @ [CHR 0x22] @ ''access_token'' @ [CHR 0x22] @ '':'' @ [CHR 0x22] @ ''ya29.token''
       @ [CHR 0x22] @ '','' @ [CHR 0x22] @ ''refresh_token'' @ [CHR 0x22] @ '':'' @ [CHR 0x22]
       @ ''1//04rt'' @ [CHR 0x22] @ '','' @ [CHR 0x22] @ ''scope'' @ [CHR 0x22] @ '':''
       @ [CHR 0x22] @ ''https://www.googleapis.com/auth/gmail.modify'' @ [CHR 0x22] @ '',''
       @ [CHR 0x22] @ ''token_type'' @ [CHR 0x22] @ '':'' @ [CHR 0x22] @ ''Bearer''
       @ [CHR 0x22] @ '','' @ [CHR 0x22] @ ''expiry_date'' @ [CHR 0x22] @ '':1730000000000}''"
  by (simp add: example_token_set_def JSON_stringify_object_def stringify_member_def
      quote_string_def escape_char_def string_of_int_def string_of_nat.simps digit_char_def)

lemma example_parse:
  "JSON_parse_object ('' { '' @ [CHR 0x22] @ ''a'' @ [CHR 0x22] @ '' : 12 , '' @ [CHR 0x22] @ ''b''
      @ [CHR 0x22] @ '':true,'' @ [CHR 0x22] @ ''a'' @ [CHR 0x22] @ '':'' @ [CHR 0x22, CHR 0x5C]
      @ ''u0041'' @ [CHR 0x22] @ '' } '')
   = Some [(''a'', JString ''A''), (''b'', JBool True)]"
  by code_simp

lemma json_valid_request:
  "url \<lparr>url = Some ''/oauth2callback?code=4/abc''\<rparr> = Some ''/oauth2callback?code=4/abc''"
  "startsWith ''/oauth2callback?code=4/abc'' ''/oauth2callback''"
  "searchParams json_platform ''/oauth2callback?code=4/abc''
     (''http://'' @ ''localhost'' @ '':'' @ string_of_nat 3000) = Some [(''code'', ''4/abc'')]"
  "map_of [(''code'', ''4/abc'')] ''code'' = Some ''4/abc''"
  "''4/abc'' \<noteq> []"
  "token_endpoint json_platform (token_request_of (oauth2Client json_state) ''4/abc'') =
     Inr example_token_set"
  "CREDENTIALS_PATH json_platform \<notin> unwritable (files json_state)"
  by (simp_all add: startsWith_def json_platform_def example_searchParams_def
      json_token_endpoint_def json_state_def example_disk_def token_request_of_def)

lemma example_is_token_set: "is_token_set example_token_set"
  by (simp add: is_token_set_def example_token_set_def)

text \<open>
  C8. On a platform whose \<open>JSON.stringify\<close> and \<open>JSON.parse\<close> are the functions of the
  language standard: when a callback is exchanged for a token set and the token set is saved
  (line 262), the client of the running process holds the token set (line 261), and a fresh
  process that runs the end of \<open>loadCredentials\<close> on the file system left behind gets a client
  whose credentials are equal to the token set saved. This holds for every token set: an
  object of strings, integers that a number holds exactly, booleans and \<open>null\<close>.
\<close>

theorem saved_credentials_load_back:
  assumes "JSON_stringify W = JSON_stringify_object" and "JSON_parse W = JSON_parse_object"
    and "url req = Some u" and "startsWith u pathName"
    and "searchParams W u (''http://'' @ host @ '':'' @ string_of_nat finalPort) = Some params"
    and "map_of params ''code'' = Some code" and "code \<noteq> []"
    and "token_endpoint W (token_request_of (oauth2Client st) code) = Inr tokens"
    and "CREDENTIALS_PATH W \<notin> unwritable (files st)"
    and "is_token_set tokens"
  shows "credentials (oauth2Client (on_request W host finalPort pathName st req)) = Some tokens
       \<and> loadSavedCredentials W (files (on_request W host finalPort pathName st req)) client =
           Done (client\<lparr>credentials := Some tokens\<rparr>)"
proof -
  from assms(10) have "distinct (map fst tokens)"
    by (simp add: is_token_set_def)
  then have "JSON_parse W (JSON_stringify W tokens) = Some tokens"
    by (simp add: assms(1,2) JSON_round_trip)
  then show ?thesis
    by (simp add: on_request_success [OF assms(3-9)] loadSavedCredentials_def existsSync_def)
qed

theorem saved_credentials_load_back_witness:
  "JSON_stringify json_platform = JSON_stringify_object \<and>
   JSON_parse json_platform = JSON_parse_object \<and>
   startsWith ''/oauth2callback?code=4/abc'' ''/oauth2callback'' \<and>
   searchParams json_platform ''/oauth2callback?code=4/abc''
     (''http://'' @ ''localhost'' @ '':'' @ string_of_nat 3000) = Some [(''code'', ''4/abc'')] \<and>
   token_endpoint json_platform (token_request_of (oauth2Client json_state) ''4/abc'') =
     Inr example_token_set \<and>
   CREDENTIALS_PATH json_platform \<notin> unwritable (files json_state) \<and>
   is_token_set example_token_set \<and>
   credentials (oauth2Client
     (on_request json_platform ''localhost'' 3000 ''/oauth2callback'' json_state
        \<lparr>url = Some ''/oauth2callback?code=4/abc''\<rparr>)) = Some example_token_set \<and>
   loadSavedCredentials json_platform
     (files (on_request json_platform ''localhost'' 3000 ''/oauth2callback'' json_state
        \<lparr>url = Some ''/oauth2callback?code=4/abc''\<rparr>))
     \<lparr>clientId = ''client-1'', clientSecret = ''secret-1'',
      redirectUri = ''http://localhost:3000/oauth2callback'', credentials = None\<rparr> =
     Done \<lparr>clientId = ''client-1'', clientSecret = ''secret-1'',
           redirectUri = ''http://localhost:3000/oauth2callback'',
           credentials = Some example_token_set\<rparr>"
proof -
  have codec: "JSON_stringify json_platform = JSON_stringify_object"
    "JSON_parse json_platform = JSON_parse_object"
    by (simp_all add: json_platform_def)
  from saved_credentials_load_back [OF codec json_valid_request example_is_token_set,
         of "\<lparr>clientId = ''client-1'', clientSecret = ''secret-1'',
              redirectUri = ''http://localhost:3000/oauth2callback'', credentials = None\<rparr>"]
  have loaded: "credentials (oauth2Client
     (on_request json_platform ''localhost'' 3000 ''/oauth2callback'' json_state
        \<lparr>url = Some ''/oauth2callback?code=4/abc''\<rparr>)) = Some example_token_set \<and>
   loadSavedCredentials json_platform
     (files (on_request json_platform ''localhost'' 3000 ''/oauth2callback'' json_state
        \<lparr>url = Some ''/oauth2callback?code=4/abc''\<rparr>))
     \<lparr>clientId = ''client-1'', clientSecret = ''secret-1'',
      redirectUri = ''http://localhost:3000/oauth2callback'', credentials = None\<rparr> =
     Done \<lparr>clientId = ''client-1'', clientSecret = ''secret-1'',
           redirectUri = ''http://localhost:3000/oauth2callback'',
           credentials = Some example_token_set\<rparr>"
    by simp
  from loaded codec json_valid_request(2,3,6,7) example_is_token_set
  show ?thesis by blast
qed

end
